theory Spec2Isabelle
  imports Main "HOL-Library.Sublist"
begin

section \<open>Python values and string primitives\<close>

text \<open>
  Exceptions of the source are values: every function that can raise returns
  \<open>error + 'a\<close>, with \<open>Inl\<close> the exception. \<open>TidalRequestError\<close> carries \<open>str(e)\<close>.
\<close>

datatype error =
    UnicodeDecodeError
  | ParseError
  | ValueError string
  | AttributeError
  | TypeError
  | KeyError string
  | IndexError
  | Base64Error
  | JSONDecodeError
  | TidalRequestError string
  | OtherError string

definition bindE :: "error + 'a \<Rightarrow> ('a \<Rightarrow> error + 'b) \<Rightarrow> error + 'b" where
  "bindE m f = (case m of Inl e \<Rightarrow> Inl e | Inr x \<Rightarrow> f x)"

text \<open>
  A character of the model is a code point below 256. \<open>str.upper()\<close> is modelled on
  ASCII text: \<open>a..z\<close> become \<open>A..Z\<close>, every other character stays. The letters
  beyond ASCII, which \<open>str.upper()\<close> maps as well, are outside the model, and the
  statements about codec names below are made for ASCII identifiers.
\<close>

definition upper_char :: "char \<Rightarrow> char" where
  "upper_char c =
     (let n = (of_char c :: nat) in if 97 \<le> n \<and> n \<le> 122 then char_of (n - 32) else c)"

definition upper :: "string \<Rightarrow> string" where
  "upper s = map upper_char s"

text \<open>\<open>sub in s\<close> for strings: \<open>sub\<close> occurs as a contiguous piece of \<open>s\<close>.\<close>

fun contains :: "string \<Rightarrow> string \<Rightarrow> bool" where
  "contains sub [] = (sub = [])"
| "contains sub (c # cs) = (prefix sub (c # cs) \<or> contains sub cs)"

text \<open>
  \<open>s.replace(old, new)\<close> for a non-empty \<open>old\<close> (the module only replaces the literal
  \<open>$Number$\<close>): every non-overlapping occurrence, leftmost first.
\<close>

function replace :: "string \<Rightarrow> string \<Rightarrow> string \<Rightarrow> string" where
  "replace old new [] = []"
| "replace old new (c # cs) =
     (if old \<noteq> [] \<and> prefix old (c # cs)
      then new @ replace old new (drop (length old) (c # cs))
      else c # replace old new cs)"
  by pat_completeness auto
termination
  by (relation "measure (\<lambda>(old, new, s). length s)") auto

text \<open>\<open>str(n)\<close> for an integer: decimal digits, a leading minus sign when negative.\<close>

definition digit_char :: "nat \<Rightarrow> char" where
  "digit_char n = char_of (48 + n)"

fun str_nat :: "nat \<Rightarrow> string" where
  "str_nat n = (if n < 10 then [digit_char n] else str_nat (n div 10) @ [digit_char (n mod 10)])"

declare str_nat.simps [simp del]

definition str :: "int \<Rightarrow> string" where
  "str i = (if i < 0 then CHR ''-'' # str_nat (nat (- i)) else str_nat (nat i))"

text \<open>
  \<open>int(s)\<close> for a string, base 10. The blanks \<open>int\<close> strips from both ends are those of C
  (tab to carriage return, and the space) and the Unicode blanks beyond ASCII, of which
  the model has U+0085 and U+00A0; the separators U+001C to U+001F are not stripped. Then
  one sign is allowed, then digits, where single underscores may stand between digits.
  Anything else raises ValueError, as does a literal of more than 4300 digits (the
  interpreter's default limit). \<open>str(n)\<close> above is total: an integer of more than 4300
  digits, which the interpreter refuses to print by default, is outside the model.
\<close>

definition is_space :: "char \<Rightarrow> bool" where
  "is_space c =
     (let n = (of_char c :: nat) in (9 \<le> n \<and> n \<le> 13) \<or> n = 32 \<or> n = 133 \<or> n = 160)"

definition strip :: "string \<Rightarrow> string" where
  "strip s = rev (dropWhile is_space (rev (dropWhile is_space s)))"

definition is_digit :: "char \<Rightarrow> bool" where
  "is_digit c = (let n = (of_char c :: nat) in 48 \<le> n \<and> n \<le> 57)"

definition digit_val :: "char \<Rightarrow> int" where
  "digit_val c = int (of_char c) - 48"

fun digits :: "int \<Rightarrow> string \<Rightarrow> int option" where
  "digits acc [] = Some acc"
| "digits acc [c] = (if is_digit c then Some (10 * acc + digit_val c) else None)"
| "digits acc (c # d # cs) =
     (if is_digit c then digits (10 * acc + digit_val c) (d # cs)
      else if c = CHR ''_'' \<and> is_digit d then digits acc (d # cs)
      else None)"

definition py_int :: "string \<Rightarrow> error + int" where
  "py_int s =
     (let t = strip s;
          neg = (case t of [] \<Rightarrow> False | c # cs \<Rightarrow> c = CHR ''-'');
          body = (case t of [] \<Rightarrow> [] | c # cs \<Rightarrow> if c = CHR ''-'' \<or> c = CHR ''+'' then cs else t)
      in case body of
           [] \<Rightarrow> Inl (ValueError ''invalid literal for int()'')
         | c # cs \<Rightarrow>
             if is_digit c
             then (case digits 0 body of
                     None \<Rightarrow> Inl (ValueError ''invalid literal for int()'')
                   | Some v \<Rightarrow>
                       if 4300 < length (filter is_digit body)
                       then Inl (ValueError ''Exceeds the limit (4300 digits)'')
                       else Inr (if neg then - v else v))
             else Inl (ValueError ''invalid literal for int()''))"

text \<open>\<open>int(x or d)\<close> where \<open>x\<close> is an attribute value: \<open>None\<close> and the empty string are falsy.\<close>

definition int_or :: "string option \<Rightarrow> int \<Rightarrow> error + int" where
  "int_or x d = (case x of None \<Rightarrow> Inr d | Some s \<Rightarrow> if s = [] then Inr d else py_int s)"

section \<open>The parsed XML tree (xml.etree.ElementTree)\<close>

datatype element = Element (tag: string) (attrib: "(string \<times> string) list") (children: "element list")

definition get :: "element \<Rightarrow> string \<Rightarrow> string option" where
  "get e k = map_of (attrib e) k"

definition findall :: "element \<Rightarrow> string \<Rightarrow> element list" where
  "findall e t = filter (\<lambda>c. tag c = t) (children e)"

definition find_el :: "element \<Rightarrow> string \<Rightarrow> element option" where
  "find_el e t = (case findall e t of [] \<Rightarrow> None | c # _ \<Rightarrow> Some c)"

text \<open>
  \<open>re.sub(r'xmlns="[^"]+"', '', xml, count=1)\<close>: the leftmost place where \<open>xmlns="\<close> is
  followed by at least one character other than a double quote and then a double quote
  is cut out; nothing else changes.
\<close>

definition dquote :: char where
  "dquote = CHR 0x22"

definition match_xmlns :: "string \<Rightarrow> nat option" where
  "match_xmlns s =
     (let p = ''xmlns='' @ [dquote] in
      if prefix p s
      then (let rest = drop (length p) s; body = takeWhile (\<lambda>c. c \<noteq> dquote) rest in
            if body \<noteq> [] \<and> length body < length rest
            then Some (length p + length body + 1) else None)
      else None)"

fun sub_xmlns :: "string \<Rightarrow> string" where
  "sub_xmlns [] = []"
| "sub_xmlns (c # cs) =
     (case match_xmlns (c # cs) of Some n \<Rightarrow> drop n (c # cs) | None \<Rightarrow> c # sub_xmlns cs)"

section \<open>Collaborators outside the module\<close>

text \<open>
  The module calls library functions and a backend whose code is not part of it. They are
  parameters of the model: the UTF-8 decoder, \<open>ElementTree.fromstring\<close>,
  \<open>base64.b64decode\<close>, \<open>json.loads\<close>, the framework's \<open>CodecEnum\<close> and \<open>codec_data\<close>
  tables (a codec is named by its member name), and the backend call
  \<open>session.get_stream_url\<close>, which answers for the session that is the current default.
  \<open>None\<close> is the library's exception.
\<close>

datatype SessionType = TV | MOBILE_DEFAULT | MOBILE_ATMOS

record json_manifest =
  codecs :: "string option"
  json_urls :: "string list option"

record stream_data =
  manifestMimeType :: string
  manifest :: string
  audioQuality :: string
  audioMode :: string

record env =
  utf8_decode :: "string \<Rightarrow> string option"
  fromstring :: "string \<Rightarrow> element option"
  b64decode :: "string \<Rightarrow> string option"
  json_loads :: "string \<Rightarrow> json_manifest option"
  codec_member :: "string \<Rightarrow> bool"
  codec_spatial :: "string \<Rightarrow> bool"
  codec_proprietary :: "string \<Rightarrow> bool"
  get_stream_url :: "SessionType \<Rightarrow> string \<Rightarrow> string \<Rightarrow> error + stream_data option"

definition CodecEnum :: "env \<Rightarrow> string \<Rightarrow> error + string" where
  "CodecEnum env name = (if codec_member env name then Inr name else Inl (KeyError name))"

section \<open>parse_mpd\<close>

record AudioTrack =
  codec :: string
  sample_rate :: int
  bitrate :: int
  urls :: "string option list"

text \<open>
  The inner loop \<open>for i in range(int(s.get('r') or 0) + 1)\<close>: the start time is appended,
  then the duration \<open>int(s.get('d'))\<close> is added (\<open>int(None)\<close> is a TypeError).
\<close>

fun repeat_S :: "string option \<Rightarrow> nat \<Rightarrow> int \<Rightarrow> int list \<Rightarrow> error + (int \<times> int list)" where
  "repeat_S d 0 cur_time seg_time_list = Inr (cur_time, seg_time_list)"
| "repeat_S d (Suc n) cur_time seg_time_list =
     (case (case d of None \<Rightarrow> Inl TypeError | Some s \<Rightarrow> py_int s) of
        Inl e \<Rightarrow> Inl e
      | Inr dv \<Rightarrow> repeat_S d n (cur_time + dv) (seg_time_list @ [cur_time]))"

text \<open>The loop \<open>for s in seg_timeline.findall('S')\<close>, carrying \<open>cur_time\<close> and \<open>seg_time_list\<close>.\<close>

fun timeline_loop :: "element list \<Rightarrow> int \<Rightarrow> int list \<Rightarrow> error + int list" where
  "timeline_loop [] cur_time seg_time_list = Inr seg_time_list"
| "timeline_loop (s # ss) cur_time seg_time_list =
     (case (case get s ''t'' of
              None \<Rightarrow> Inr cur_time
            | Some t \<Rightarrow> if t = [] then Inr cur_time else py_int t) of
        Inl e \<Rightarrow> Inl e
      | Inr cur1 \<Rightarrow>
          (case int_or (get s ''r'') 0 of
             Inl e \<Rightarrow> Inl e
           | Inr r \<Rightarrow>
               (case repeat_S (get s ''d'') (nat (r + 1)) cur1 seg_time_list of
                  Inl e \<Rightarrow> Inl e
                | Inr (cur2, acc2) \<Rightarrow> timeline_loop ss cur2 acc2)))"

text \<open>
  \<open>[seg_template.get('media').replace('$Number$', str(n)) for n in seg_num_list]\<close>: with
  an empty index list the body never runs, so a missing \<open>media\<close> attribute only raises
  when there is a segment.
\<close>

definition media_urls :: "string option \<Rightarrow> int list \<Rightarrow> error + string option list" where
  "media_urls media seg_num_list =
     (if seg_num_list = [] then Inr []
      else case media of
             None \<Rightarrow> Inl AttributeError
           | Some m \<Rightarrow> Inr (map (\<lambda>n. Some (replace ''$Number$'' (str n) m)) seg_num_list))"

text \<open>The body of the innermost loop: one Representation of one AdaptationSet.\<close>

definition parse_representation :: "env \<Rightarrow> element \<Rightarrow> element \<Rightarrow> error + AudioTrack" where
  "parse_representation env adaptation_set rep =
     (if get adaptation_set ''contentType'' \<noteq> Some ''audio''
      then Inl (ValueError ''Only supports audio MPDs!'')
      else case get rep ''codecs'' of
        None \<Rightarrow> Inl AttributeError
      | Some c \<Rightarrow>
         (let codec0 = upper c;
              codec1 = (if prefix ''MP4A'' codec0 then ''AAC'' else codec0)
          in case find_el rep ''SegmentTemplate'' of
            None \<Rightarrow> Inl AttributeError
          | Some seg_template \<Rightarrow>
             (let track_urls = [get seg_template ''initialization''] in
              bindE (int_or (get seg_template ''startNumber'') 1) (\<lambda>start_number.
              bindE (case find_el seg_template ''SegmentTimeline'' of
                       None \<Rightarrow> Inr track_urls
                     | Some seg_timeline \<Rightarrow>
                         bindE (timeline_loop (findall seg_timeline ''S'') 0 []) (\<lambda>seg_time_list.
                         bindE (media_urls (get seg_template ''media'')
                                  (map (\<lambda>k. start_number + int k) [0..<length seg_time_list]))
                               (\<lambda>us. Inr (track_urls @ us)))) (\<lambda>track_urls'.
              bindE (CodecEnum env codec1) (\<lambda>cd.
              bindE (int_or (get rep ''audioSamplingRate'') 0) (\<lambda>sr.
              bindE (int_or (get rep ''bandwidth'') 0) (\<lambda>bw.
              Inr \<lparr>codec = cd, sample_rate = sr, bitrate = bw, urls = track_urls'\<rparr>))))))))"

text \<open>
  The three nested \<open>findall\<close> loops visit the (AdaptationSet, Representation) pairs in
  document order; the first exception ends the call.
\<close>

definition representations :: "element \<Rightarrow> (element \<times> element) list" where
  "representations root =
     concat (map (\<lambda>period.
       concat (map (\<lambda>adaptation_set.
         map (\<lambda>rep. (adaptation_set, rep)) (findall adaptation_set ''Representation''))
         (findall period ''AdaptationSet'')))
       (findall root ''Period''))"

fun parse_tracks :: "env \<Rightarrow> (element \<times> element) list \<Rightarrow> error + AudioTrack list" where
  "parse_tracks env [] = Inr []"
| "parse_tracks env (ar # rest) =
     (case parse_representation env (fst ar) (snd ar) of
        Inl e \<Rightarrow> Inl e
      | Inr t \<Rightarrow> (case parse_tracks env rest of Inl e \<Rightarrow> Inl e | Inr ts \<Rightarrow> Inr (t # ts)))"

definition parse_mpd :: "env \<Rightarrow> string \<Rightarrow> error + AudioTrack list" where
  "parse_mpd env xml =
     (case utf8_decode env xml of
        None \<Rightarrow> Inl UnicodeDecodeError
      | Some text \<Rightarrow>
          (case fromstring env (sub_xmlns text) of
             None \<Rightarrow> Inl ParseError
           | Some root \<Rightarrow> parse_tracks env (representations root)))"

section \<open>The format resolver of get_track_info\<close>

text \<open>
  \<open>QualityEnum\<close> has the six members that are the keys of \<open>quality_parse\<close>. The three
  formats and "no format" of the source are the strings \<open>'360ra'\<close>, \<open>'ac4'\<close>, \<open>'ac3'\<close>,
  \<open>'flac_hires'\<close> and \<open>None\<close>.
\<close>

datatype QualityEnum = MINIMUM | LOW | MEDIUM | HIGH | LOSSLESS | HIFI

datatype format = Fmt_360ra | Fmt_ac4 | Fmt_ac3 | Fmt_flac_hires

definition quality_parse :: "QualityEnum \<Rightarrow> string" where
  "quality_parse q =
     (case q of MINIMUM \<Rightarrow> ''LOW'' | LOW \<Rightarrow> ''LOW'' | MEDIUM \<Rightarrow> ''HIGH'' | HIGH \<Rightarrow> ''HIGH''
      | LOSSLESS \<Rightarrow> ''LOSSLESS'' | HIFI \<Rightarrow> ''HI_RES'')"

record settings =
  enable_mobile :: bool
  prefer_ac4 :: bool
  fix_mqa :: bool

record CodecOptions =
  spatial_codecs :: bool
  proprietary_codecs :: bool

text \<open>
  The part of \<open>self\<close> that get_track_info reads and writes: the settings, the list
  \<open>self.available_sessions\<close>, the backend's current session \<open>self.session.default\<close>, and,
  as logs of the effects, the calls of \<open>get_stream_url\<close> (session, track id, quality
  string), the lines printed and the URLs whose header was fetched for the MQA check.
\<close>

record module_state =
  module_settings :: settings
  available_sessions :: "SessionType list"
  session_default :: SessionType
  requests :: "(SessionType \<times> string \<times> string) list"
  printed :: "string list"
  mqa_probed :: "string list"

text \<open>\<open>__init__\<close>: all three sessions, or the TV session alone when \<open>enable_mobile\<close> is off.\<close>

definition init_available_sessions :: "settings \<Rightarrow> SessionType list" where
  "init_available_sessions s =
     (if \<not> enable_mobile s then [TV] else [TV, MOBILE_DEFAULT, MOBILE_ATMOS])"

text \<open>Lines 826 to 837: the format chosen from the codec options, the tags and the tier.\<close>

definition select_format :: "module_state \<Rightarrow> CodecOptions \<Rightarrow> QualityEnum \<Rightarrow> string list \<Rightarrow> format option" where
  "select_format self codec_options quality_tier media_tags =
     (let format =
        (if spatial_codecs codec_options
         then (if ''SONY_360RA'' \<in> set media_tags then Some Fmt_360ra
               else if ''DOLBY_ATMOS'' \<in> set media_tags
                    then (if prefer_ac4 (module_settings self) then Some Fmt_ac4 else Some Fmt_ac3)
                    else None)
         else None)
      in if ''HIRES_LOSSLESS'' \<in> set media_tags \<and> format = None \<and> quality_tier = HIFI
         then Some Fmt_flac_hires else format)"

text \<open>Lines 839 to 852: the session of the format, and the override for Atmos tracks.\<close>

definition session_of_format :: "format option \<Rightarrow> SessionType" where
  "session_of_format format =
     (case format of
        Some Fmt_flac_hires \<Rightarrow> MOBILE_DEFAULT
      | Some Fmt_360ra \<Rightarrow> MOBILE_DEFAULT
      | Some Fmt_ac4 \<Rightarrow> MOBILE_ATMOS
      | Some Fmt_ac3 \<Rightarrow> TV
      | None \<Rightarrow> TV)"

definition select_session :: "format option \<Rightarrow> string list \<Rightarrow> SessionType" where
  "select_session format media_tags =
     (if format = None \<and> ''DOLBY_ATMOS'' \<in> set media_tags then MOBILE_DEFAULT
      else session_of_format format)"

text \<open>
  Lines 854 to 864: the session becomes the backend's default only when it is available,
  otherwise the format is dropped and the default stays; then the quality string that is
  requested. The result is the new state, the quality string and the final format.
\<close>

definition resolve :: "module_state \<Rightarrow> CodecOptions \<Rightarrow> QualityEnum \<Rightarrow> string list
    \<Rightarrow> module_state \<times> string \<times> format option" where
  "resolve self codec_options quality_tier media_tags =
     (let format = select_format self codec_options quality_tier media_tags;
          session = select_session format media_tags;
          self' = (if session \<in> set (available_sessions self)
                   then self\<lparr>session_default := session\<rparr> else self);
          format' = (if session \<in> set (available_sessions self) then format else None)
      in (self',
          if format' \<noteq> Some Fmt_flac_hires then quality_parse quality_tier else ''HI_RES_LOSSLESS'',
          format'))"

section \<open>Fetching and reading the manifest in get_track_info\<close>

text \<open>The variable \<open>manifest\<close>: the decoded bytes of a DASH document, or the JSON object.\<close>

datatype manifest_value = Dash string | Json json_manifest

datatype download_args = AudioTrackArgs AudioTrack | FileUrlArgs string string

text \<open>
  The fields of the returned TrackInfo that come from the stream: codec, bitrate,
  download_extra_kwargs and the error annotation. The catalogue fields (names, cover,
  tags) and the two values computed with floats or from the MQA identifier (sample rate,
  bit depth) are outside this model.
\<close>

record TrackInfo =
  track_codec :: string
  track_bitrate :: "int option"
  download_extra_kwargs :: "download_args option"
  track_error :: "string option"

text \<open>
  Lines 873 to 879, and again 887 to 893: \<open>audio_track\<close> is assigned only in the DASH
  branch, so the JSON branch hands back the value it had.
\<close>

definition read_manifest :: "env \<Rightarrow> AudioTrack option \<Rightarrow> stream_data
    \<Rightarrow> error + (AudioTrack option \<times> manifest_value \<times> string)" where
  "read_manifest env audio_track sd =
     (if manifestMimeType sd = ''application/dash+xml''
      then (case b64decode env (manifest sd) of
              None \<Rightarrow> Inl Base64Error
            | Some raw \<Rightarrow>
                bindE (parse_mpd env raw) (\<lambda>tracks.
                  case tracks of [] \<Rightarrow> Inl IndexError | t # _ \<Rightarrow> Inr (Some t, Dash raw, codec t)))
      else (case b64decode env (manifest sd) of
              None \<Rightarrow> Inl Base64Error
            | Some raw \<Rightarrow>
                (case json_loads env raw of
                   None \<Rightarrow> Inl JSONDecodeError
                 | Some j \<Rightarrow>
                     (case codecs j of
                        None \<Rightarrow> Inl (KeyError ''codecs'')
                      | Some c \<Rightarrow>
                          bindE (CodecEnum env (if contains ''mp4a'' c then ''AAC'' else upper c))
                            (\<lambda>cd. Inr (audio_track, Json j, cd))))))"

text \<open>\<open>manifest['urls'][0]\<close>.\<close>

definition first_url :: "manifest_value \<Rightarrow> error + string" where
  "first_url m =
     (case m of
        Dash raw \<Rightarrow> Inl TypeError
      | Json j \<Rightarrow>
          (case json_urls j of
             None \<Rightarrow> Inl (KeyError ''urls'')
           | Some [] \<Rightarrow> Inl IndexError
           | Some (u # _) \<Rightarrow> Inr u))"

text \<open>The fallback bitrate of lines 914 to 936.\<close>

definition bitrate_of :: "stream_data \<Rightarrow> AudioTrack option \<Rightarrow> string \<Rightarrow> error + int option" where
  "bitrate_of sd audio_track cd =
     bindE (if audioQuality sd = ''LOW'' then Inr (Some 96)
            else if audioQuality sd = ''HIGH'' then Inr (Some 320)
            else if audioQuality sd = ''LOSSLESS'' then Inr (Some 1411)
            else if audioQuality sd = ''HI_RES'' then Inr None
            else if audioQuality sd = ''HI_RES_LOSSLESS'' then Inr None
            else Inl (KeyError (audioQuality sd))) (\<lambda>b0.
     let b1 = (if audioMode sd = ''DOLBY_ATMOS''
               then (if cd = ''EAC3'' then Some 768 else if cd = ''AC4'' then Some 256 else b0)
               else if audioMode sd = ''SONY_360RA'' then Some 667 else b0)
     in Inr (case audio_track of None \<Rightarrow> b1 | Some t \<Rightarrow> Some (bitrate t div 1000)))"

text \<open>
  Lines 895 to 907 and 914 to 980 for a stream that was fetched: the download arguments
  (with the MQA header fetch logged), the bitrate, and the TrackInfo with no error.
\<close>

definition finish :: "module_state \<Rightarrow> stream_data \<Rightarrow> AudioTrack option \<Rightarrow> manifest_value \<Rightarrow> string
    \<Rightarrow> module_state \<times> (error + TrackInfo)" where
  "finish self sd audio_track m cd =
     (case audio_track of
        Some t \<Rightarrow>
          (self, bindE (bitrate_of sd audio_track cd) (\<lambda>b.
             Inr \<lparr>track_codec = cd, track_bitrate = b,
                  download_extra_kwargs = Some (AudioTrackArgs t), track_error = None\<rparr>))
      | None \<Rightarrow>
          (case first_url m of
             Inl e \<Rightarrow> (self, Inl e)
           | Inr u \<Rightarrow>
               (let self' = (if cd = ''MQA'' \<and> fix_mqa (module_settings self)
                             then self\<lparr>mqa_probed := mqa_probed self @ [u]\<rparr> else self)
                in (self', bindE (bitrate_of sd audio_track cd) (\<lambda>b.
                     Inr \<lparr>track_codec = cd, track_bitrate = b,
                          download_extra_kwargs = Some (FileUrlArgs u cd), track_error = None\<rparr>)))))"

definition proprietary_message :: "string \<Rightarrow> string" where
  "proprietary_message name =
     ''Proprietary codecs are disabled, if you want to download '' @ name @ '', set '' @
     [dquote] @ ''proprietary_codecs'' @ [dquote] @ '': true''"

text \<open>Lines 872 to 907 onwards, for a stream that is not \<open>None\<close>.\<close>

definition after_fetch :: "env \<Rightarrow> module_state \<Rightarrow> string \<Rightarrow> CodecOptions \<Rightarrow> stream_data
    \<Rightarrow> module_state \<times> (error + TrackInfo)" where
  "after_fetch env self track_id codec_options sd =
     (case read_manifest env None sd of
        Inl e \<Rightarrow> (self, Inl e)
      | Inr (audio_track, m, cd) \<Rightarrow>
          if \<not> codec_spatial env cd \<and> \<not> proprietary_codecs codec_options \<and> codec_proprietary env cd
          then
            (let self' = self\<lparr>printed := printed self @ [proprietary_message cd],
                            requests := requests self @ [(session_default self, track_id, ''LOSSLESS'')]\<rparr>
             in case get_stream_url env (session_default self) track_id ''LOSSLESS'' of
                  Inl e \<Rightarrow> (self', Inl e)
                | Inr None \<Rightarrow> (self', Inl TypeError)
                | Inr (Some sd') \<Rightarrow>
                    (case read_manifest env audio_track sd' of
                       Inl e \<Rightarrow> (self', Inl e)
                     | Inr (audio_track', m', cd') \<Rightarrow> finish self' sd' audio_track' m' cd'))
          else finish self sd audio_track m cd)"

text \<open>
  get_track_info from line 825 on; \<open>media_tags\<close> is \<open>track_data['mediaMetadata']['tags']\<close>.
  Only a TidalRequestError of the first fetch is caught.
\<close>

definition region_error :: "string \<Rightarrow> string \<Rightarrow> string" where
  "region_error track_id msg =
     ''Error: '' @ (if contains ''Asset is not ready for playback'' msg
                    then ''Track ['' @ track_id @ ''] is not available in your region''
                    else msg)"

definition get_track_info :: "env \<Rightarrow> module_state \<Rightarrow> string \<Rightarrow> QualityEnum \<Rightarrow> CodecOptions
    \<Rightarrow> string list \<Rightarrow> module_state \<times> (error + TrackInfo)" where
  "get_track_info env self track_id quality_tier codec_options media_tags =
     (case resolve self codec_options quality_tier media_tags of
        (self1, quality, format) \<Rightarrow>
          (let self2 = self1\<lparr>requests := requests self1 @ [(session_default self1, track_id, quality)]\<rparr>
           in case get_stream_url env (session_default self1) track_id quality of
                Inl e \<Rightarrow>
                  (case e of
                     TidalRequestError msg \<Rightarrow>
                       (self2, Inr \<lparr>track_codec = ''FLAC'', track_bitrate = None,
                                    download_extra_kwargs = None,
                                    track_error = Some (region_error track_id msg)\<rparr>)
                   | _ \<Rightarrow> (self2, Inl e))
              | Inr None \<Rightarrow>
                  (self2, Inr \<lparr>track_codec = ''FLAC'', track_bitrate = None,
                               download_extra_kwargs = None, track_error = None\<rparr>)
              | Inr (Some sd) \<Rightarrow> after_fetch env self2 track_id codec_options sd))"

section \<open>get_track_download\<close>

text \<open>
  The collaborators of the download: \<open>download_to_temp\<close> (the path it wrote and the bytes,
  or its exception), the two names \<open>create_temp_filename()\<close> hands out, the container
  name of \<open>codec_data\<close>, and the external ffmpeg run (the bytes of the output file, or
  \<open>None\<close> when importing or running it raises). The state is the temporary files, path
  to content, and the lines printed.
\<close>

datatype TrackDownloadInfo = URL string | TEMP_FILE_PATH string

record download_env =
  download_to_temp :: "string option \<Rightarrow> error + (string \<times> string)"
  temp_filenames :: "string \<times> string"
  container_name :: "string \<Rightarrow> string"
  ffmpeg_run :: "string \<Rightarrow> string \<Rightarrow> string option"

record download_state =
  temp_files :: "string \<Rightarrow> string option"
  download_printed :: "string list"

text \<open>The loop \<open>for download_url in bar\<close>; an exception leaves the files written so far.\<close>

fun download_segments :: "download_env \<Rightarrow> download_state \<Rightarrow> string option list \<Rightarrow> string list
    \<Rightarrow> download_state \<times> (error + string list)" where
  "download_segments denv st [] temp_locations = (st, Inr temp_locations)"
| "download_segments denv st (download_url # rest) temp_locations =
     (case download_to_temp denv download_url of
        Inl e \<Rightarrow> (st, Inl e)
      | Inr pc \<Rightarrow>
          download_segments denv (st\<lparr>temp_files := (temp_files st)(fst pc \<mapsto> snd pc)\<rparr>) rest
            (temp_locations @ [fst pc]))"

definition read_file :: "download_state \<Rightarrow> string \<Rightarrow> string" where
  "read_file st p = (case temp_files st p of None \<Rightarrow> [] | Some c \<Rightarrow> c)"

fun silentremove_all :: "string list \<Rightarrow> (string \<Rightarrow> string option) \<Rightarrow> (string \<Rightarrow> string option)" where
  "silentremove_all [] fs = fs"
| "silentremove_all (p # ps) fs = silentremove_all ps (fs(p := None))"

definition ffmpeg_warning :: string where
  "ffmpeg_warning = ''FFmpeg is not installed or working! Using fallback, may have errors''"

text \<open>The MPEG-DASH part, from line 1069.\<close>

definition download_dash :: "download_env \<Rightarrow> download_state \<Rightarrow> AudioTrack
    \<Rightarrow> download_state \<times> (error + TrackDownloadInfo)" where
  "download_dash denv st audio_track =
     (case download_segments denv st (urls audio_track) [] of
        (st1, Inl e) \<Rightarrow> (st1, Inl e)
      | (st1, Inr temp_locations) \<Rightarrow>
          (let merged_temp_location = fst (temp_filenames denv) @ ''.mp4'';
               output_location = snd (temp_filenames denv) @ ''.'' @ container_name denv (codec audio_track);
               merged = concat (map (read_file st1) temp_locations);
               st2 = st1\<lparr>temp_files := (temp_files st1)(merged_temp_location \<mapsto> merged)\<rparr>
           in case ffmpeg_run denv merged output_location of
                None \<Rightarrow>
                  (st2\<lparr>download_printed := download_printed st2 @ [ffmpeg_warning]\<rparr>,
                   Inr (TEMP_FILE_PATH merged_temp_location))
              | Some out \<Rightarrow>
                  (st2\<lparr>temp_files :=
                         silentremove_all temp_locations
                           (((temp_files st2)(output_location \<mapsto> out))(merged_temp_location := None))\<rparr>,
                   Inr (TEMP_FILE_PATH output_location))))"

definition get_track_download :: "download_env \<Rightarrow> download_state \<Rightarrow> string option \<Rightarrow> AudioTrack option
    \<Rightarrow> download_state \<times> (error + TrackDownloadInfo)" where
  "get_track_download denv st file_url audio_track =
     (case file_url of
        Some u \<Rightarrow>
          if u \<noteq> [] then (st, Inr (URL u))
          else (case audio_track of None \<Rightarrow> (st, Inl AttributeError) | Some t \<Rightarrow> download_dash denv st t)
      | None \<Rightarrow>
          (case audio_track of None \<Rightarrow> (st, Inl AttributeError) | Some t \<Rightarrow> download_dash denv st t))"

section \<open>Readings of a well-formed manifest\<close>

text \<open>
  The values a well-formed manifest declares, read off the tree, and the timeline as the
  specification describes it: an entry is (start time, repeat count, duration); an entry
  with no start time continues where the previous one ended, and an entry with repeat
  count \<open>r\<close> stands for \<open>r + 1\<close> segments, each one duration after the other.
\<close>

definition int_val :: "string \<Rightarrow> int" where
  "int_val s = (case py_int s of Inl e \<Rightarrow> 0 | Inr v \<Rightarrow> v)"

definition int_val_or :: "string option \<Rightarrow> int \<Rightarrow> int" where
  "int_val_or x d = (case int_or x d of Inl e \<Rightarrow> d | Inr v \<Rightarrow> v)"

definition is_int :: "string option \<Rightarrow> bool" where
  "is_int x = (case int_or x 0 of Inl e \<Rightarrow> False | Inr v \<Rightarrow> True)"

definition S_entry :: "element \<Rightarrow> int option \<times> int \<times> int" where
  "S_entry s =
     ((case get s ''t'' of None \<Rightarrow> None | Some t \<Rightarrow> if t = [] then None else Some (int_val t)),
      int_val_or (get s ''r'') 0,
      int_val_or (get s ''d'') 0)"

fun timeline_spec :: "int \<Rightarrow> (int option \<times> int \<times> int) list \<Rightarrow> int list" where
  "timeline_spec prev_end [] = []"
| "timeline_spec prev_end ((t, r, d) # es) =
     (let start = (case t of None \<Rightarrow> prev_end | Some t' \<Rightarrow> t')
      in map (\<lambda>k. start + int k * d) [0..<nat (r + 1)] @ timeline_spec (start + (r + 1) * d) es)"

definition template_of :: "element \<Rightarrow> element" where
  "template_of rep =
     (case find_el rep ''SegmentTemplate'' of None \<Rightarrow> Element [] [] [] | Some st \<Rightarrow> st)"

definition timeline_entries :: "element \<Rightarrow> (int option \<times> int \<times> int) list" where
  "timeline_entries st =
     (case find_el st ''SegmentTimeline'' of
        None \<Rightarrow> []
      | Some tline \<Rightarrow> map S_entry (findall tline ''S''))"

definition start_number_of :: "element \<Rightarrow> int" where
  "start_number_of st = int_val_or (get st ''startNumber'') 1"

definition media_of :: "element \<Rightarrow> string" where
  "media_of st = (case get st ''media'' of None \<Rightarrow> [] | Some m \<Rightarrow> m)"

definition expected_urls :: "element \<Rightarrow> string option list" where
  "expected_urls rep =
     (let st = template_of rep in
      get st ''initialization'' #
      map (\<lambda>k. Some (replace ''$Number$'' (str (start_number_of st + int k)) (media_of st)))
        [0..<length (timeline_spec 0 (timeline_entries st))])"

text \<open>
  Well-formed: every integer attribute that is present is a decimal integer, a repeat
  count is not negative, every \<open>S\<close> has a duration, a template has its initialization (and
  its media pattern when it has a timeline), and every representation sits in an audio
  adaptation set, names a codec the framework knows and has a SegmentTemplate.
\<close>

definition wf_S :: "element \<Rightarrow> bool" where
  "wf_S s =
     (is_int (get s ''t'') \<and> is_int (get s ''r'') \<and> 0 \<le> int_val_or (get s ''r'') 0 \<and>
      get s ''d'' \<noteq> None \<and> get s ''d'' \<noteq> Some [] \<and> is_int (get s ''d''))"

definition wf_template :: "element \<Rightarrow> bool" where
  "wf_template st =
     (get st ''initialization'' \<noteq> None \<and> is_int (get st ''startNumber'') \<and>
      (case find_el st ''SegmentTimeline'' of
         None \<Rightarrow> True
       | Some tline \<Rightarrow> get st ''media'' \<noteq> None \<and> list_all wf_S (findall tline ''S'')))"

definition wf_representation :: "env \<Rightarrow> element \<times> element \<Rightarrow> bool" where
  "wf_representation env ar =
     (get (fst ar) ''contentType'' = Some ''audio'' \<and>
      (case get (snd ar) ''codecs'' of
         None \<Rightarrow> False
       | Some c \<Rightarrow> codec_member env (if prefix ''MP4A'' (upper c) then ''AAC'' else upper c)) \<and>
      (case find_el (snd ar) ''SegmentTemplate'' of None \<Rightarrow> False | Some st \<Rightarrow> wf_template st) \<and>
      is_int (get (snd ar) ''audioSamplingRate'') \<and> is_int (get (snd ar) ''bandwidth''))"

definition wf_manifest :: "env \<Rightarrow> element \<Rightarrow> bool" where
  "wf_manifest env root = list_all (wf_representation env) (representations root)"

section \<open>Codec names as the specification words them\<close>

text \<open>
  The capital of a letter, by the table of the 26 letters; an identifier written in
  capitals; an identifier that begins with \<open>mp4a\<close> whatever the case of its letters;
  an identifier of ASCII characters.
\<close>

definition capital_of :: "char \<Rightarrow> char" where
  "capital_of c =
     (case map_of (zip ''abcdefghijklmnopqrstuvwxyz'' ''ABCDEFGHIJKLMNOPQRSTUVWXYZ'') c of
        None \<Rightarrow> c
      | Some C \<Rightarrow> C)"

definition in_capitals :: "string \<Rightarrow> string" where
  "in_capitals c = map capital_of c"

definition begins_mp4a :: "string \<Rightarrow> bool" where
  "begins_mp4a c = prefix ''MP4A'' (in_capitals c)"

definition is_ascii :: "string \<Rightarrow> bool" where
  "is_ascii c = list_all (\<lambda>ch. (of_char ch :: nat) < 128) c"

section \<open>States the module produces\<close>

text \<open>
  \<open>__init__\<close> sets \<open>available_sessions\<close> from the setting \<open>enable_mobile\<close> and never
  changes it, and every assignment to \<open>self.session.default\<close> in the module is either
  guarded by membership in \<open>available_sessions\<close> or assigns the TV session, which is
  always a member.
\<close>

definition sessions_consistent :: "module_state \<Rightarrow> bool" where
  "sessions_consistent self =
     (available_sessions self = init_available_sessions (module_settings self) \<and>
      session_default self \<in> set (available_sessions self))"

section \<open>Concrete inputs\<close>

text \<open>
  The inputs at which the theorems below are evaluated: the segmented manifest of the
  specification's scenario D, a segmented manifest with codec \<open>mqa\<close>, three direct JSON
  manifests, a document with a period and no adaptation set, a document with a video
  adaptation set, a document that repeats the default namespace declaration (the parser
  meets it with one declaration left, and names its elements in that namespace), the
  codec table of the OrpheusDL framework, and a backend that
  answers by quality string.
\<close>

definition scenario_D_xml :: string where
  "scenario_D_xml =
     ''<MPD xmlns='' @ [dquote] @ ''urn:mpeg:dash:schema:mpd:2011'' @ [dquote] @
     ''><Period><AdaptationSet contentType='' @ [dquote] @ ''audio'' @ [dquote] @
     ''><Representation codecs='' @ [dquote] @ ''flac'' @ [dquote] @
     '' audioSamplingRate='' @ [dquote] @ ''44100'' @ [dquote] @ '' bandwidth='' @
     [dquote] @ ''1000000'' @ [dquote] @ ''><SegmentTemplate startNumber='' @ [dquote] @
     ''1'' @ [dquote] @ '' initialization='' @ [dquote] @ ''http://x/init.mp4'' @
     [dquote] @ '' media='' @ [dquote] @ ''http://x/$Number$.mp4'' @ [dquote] @
     ''><SegmentTimeline><S t='' @ [dquote] @ ''0'' @ [dquote] @ '' d='' @ [dquote] @
     ''1000'' @ [dquote] @ '' r='' @ [dquote] @ ''2'' @ [dquote] @
     ''/></SegmentTimeline></SegmentTemplate></Representation></Ada'' @
     ''ptationSet></Period></MPD>''"

definition scenario_D_stripped :: string where
  "scenario_D_stripped =
     ''<MPD ><Period><AdaptationSet contentType='' @ [dquote] @ ''audio'' @ [dquote] @
     ''><Representation codecs='' @ [dquote] @ ''flac'' @ [dquote] @
     '' audioSamplingRate='' @ [dquote] @ ''44100'' @ [dquote] @ '' bandwidth='' @
     [dquote] @ ''1000000'' @ [dquote] @ ''><SegmentTemplate startNumber='' @ [dquote] @
     ''1'' @ [dquote] @ '' initialization='' @ [dquote] @ ''http://x/init.mp4'' @
     [dquote] @ '' media='' @ [dquote] @ ''http://x/$Number$.mp4'' @ [dquote] @
     ''><SegmentTimeline><S t='' @ [dquote] @ ''0'' @ [dquote] @ '' d='' @ [dquote] @
     ''1000'' @ [dquote] @ '' r='' @ [dquote] @ ''2'' @ [dquote] @
     ''/></SegmentTimeline></SegmentTemplate></Representation></Ada'' @
     ''ptationSet></Period></MPD>''"

definition scenario_D_doc :: element where
  "scenario_D_doc =
     Element ''MPD'' []
      [Element ''Period'' []
        [Element ''AdaptationSet'' [(''contentType'', ''audio'')]
          [Element ''Representation''
             [(''codecs'', ''flac''), (''audioSamplingRate'', ''44100''), (''bandwidth'', ''1000000'')]
            [Element ''SegmentTemplate''
               [(''startNumber'', ''1''), (''initialization'', ''http://x/init.mp4''),
                (''media'', ''http://x/$Number$.mp4'')]
              [Element ''SegmentTimeline'' []
                [Element ''S'' [(''t'', ''0''), (''d'', ''1000''), (''r'', ''2'')] []]]]]]]"

definition empty_period_xml :: string where
  "empty_period_xml = ''<MPD><Period></Period></MPD>''"

definition empty_period_doc :: element where
  "empty_period_doc = Element ''MPD'' [] [Element ''Period'' [] []]"

definition video_xml :: string where
  "video_xml =
     ''<MPD><Period><AdaptationSet contentType='' @ [dquote] @ ''video'' @ [dquote] @
     ''><Representation/></AdaptationSet></Period></MPD>''"

definition video_doc :: element where
  "video_doc =
     Element ''MPD'' []
      [Element ''Period'' []
        [Element ''AdaptationSet'' [(''contentType'', ''video'')] [Element ''Representation'' [] []]]]"

definition mqa_dash_xml :: string where
  "mqa_dash_xml =
     ''<MPD><Period><AdaptationSet contentType='' @ [dquote] @ ''audio'' @ [dquote] @
     ''><Representation codecs='' @ [dquote] @ ''mqa'' @ [dquote] @ '' bandwidth='' @
     [dquote] @ ''2000000'' @ [dquote] @ ''><SegmentTemplate initialization='' @
     [dquote] @ ''http://x/i.mp4'' @ [dquote] @
     ''/></Representation></AdaptationSet></Period></MPD>''"

definition mqa_dash_doc :: element where
  "mqa_dash_doc =
     Element ''MPD'' []
      [Element ''Period'' []
        [Element ''AdaptationSet'' [(''contentType'', ''audio'')]
          [Element ''Representation'' [(''codecs'', ''mqa''), (''bandwidth'', ''2000000'')]
            [Element ''SegmentTemplate'' [(''initialization'', ''http://x/i.mp4'')] []]]]]"

definition mqa_dash_b64 :: string where
  "mqa_dash_b64 =
     ''PE1QRD48UGVyaW9kPjxBZGFwdGF0aW9uU2V0IGNvbnRlbnRUeXBlPSJhdWRp'' @
     ''byI+PFJlcHJlc2VudGF0aW9uIGNvZGVjcz0ibXFhIiBiYW5kd2lkdGg9IjIw'' @
     ''MDAwMDAiPjxTZWdtZW50VGVtcGxhdGUgaW5pdGlhbGl6YXRpb249Imh0dHA6'' @
     ''Ly94L2kubXA0Ii8+PC9SZXByZXNlbnRhdGlvbj48L0FkYXB0YXRpb25TZXQ+'' @
     ''PC9QZXJpb2Q+PC9NUEQ+''"

definition repeated_xmlns_xml :: string where
  "repeated_xmlns_xml =
     ''<MPD xmlns='' @ [dquote] @ ''a'' @ [dquote] @ '' xmlns='' @ [dquote] @ ''b'' @ [dquote] @
     ''><Period/></MPD>''"

definition repeated_xmlns_stripped :: string where
  "repeated_xmlns_stripped =
     ''<MPD  xmlns='' @ [dquote] @ ''b'' @ [dquote] @ ''><Period/></MPD>''"

definition repeated_xmlns_doc :: element where
  "repeated_xmlns_doc = Element ''{b}MPD'' [] [Element ''{b}Period'' [] []]"

definition scenario_D_b64 :: string where
  "scenario_D_b64 =
     ''PE1QRCB4bWxucz0idXJuOm1wZWc6ZGFzaDpzY2hlbWE6bXBkOjIwMTEiPjxQ'' @
     ''ZXJpb2Q+PEFkYXB0YXRpb25TZXQgY29udGVudFR5cGU9ImF1ZGlvIj48UmVw'' @
     ''cmVzZW50YXRpb24gY29kZWNzPSJmbGFjIiBhdWRpb1NhbXBsaW5nUmF0ZT0i'' @
     ''NDQxMDAiIGJhbmR3aWR0aD0iMTAwMDAwMCI+PFNlZ21lbnRUZW1wbGF0ZSBz'' @
     ''dGFydE51bWJlcj0iMSIgaW5pdGlhbGl6YXRpb249Imh0dHA6Ly94L2luaXQu'' @
     ''bXA0IiBtZWRpYT0iaHR0cDovL3gvJE51bWJlciQubXA0Ij48U2VnbWVudFRp'' @
     ''bWVsaW5lPjxTIHQ9IjAiIGQ9IjEwMDAiIHI9IjIiLz48L1NlZ21lbnRUaW1l'' @
     ''bGluZT48L1NlZ21lbnRUZW1wbGF0ZT48L1JlcHJlc2VudGF0aW9uPjwvQWRh'' @
     ''cHRhdGlvblNldD48L1BlcmlvZD48L01QRD4=''"

definition aac_json :: string where
  "aac_json =
     ''{'' @ [dquote] @ ''codecs'' @ [dquote] @ '':'' @ [dquote] @ ''mp4a.40.2'' @
     [dquote] @ '','' @ [dquote] @ ''urls'' @ [dquote] @ '':['' @ [dquote] @
     ''http://x/a.m4a'' @ [dquote] @ '']}''"

definition aac_b64 :: string where
  "aac_b64 = ''eyJjb2RlY3MiOiJtcDRhLjQwLjIiLCJ1cmxzIjpbImh0dHA6Ly94L2EubTRhIl19''"

definition mqa_json :: string where
  "mqa_json =
     ''{'' @ [dquote] @ ''codecs'' @ [dquote] @ '':'' @ [dquote] @ ''mqa'' @ [dquote] @
     '','' @ [dquote] @ ''urls'' @ [dquote] @ '':['' @ [dquote] @ ''http://x/m.flac'' @
     [dquote] @ '']}''"

definition mqa_b64 :: string where
  "mqa_b64 = ''eyJjb2RlY3MiOiJtcWEiLCJ1cmxzIjpbImh0dHA6Ly94L20uZmxhYyJdfQ==''"

definition flac_json :: string where
  "flac_json =
     ''{'' @ [dquote] @ ''codecs'' @ [dquote] @ '':'' @ [dquote] @ ''flac'' @ [dquote] @
     '','' @ [dquote] @ ''urls'' @ [dquote] @ '':['' @ [dquote] @ ''http://x/l.flac'' @
     [dquote] @ '']}''"

definition flac_b64 :: string where
  "flac_b64 = ''eyJjb2RlY3MiOiJmbGFjIiwidXJscyI6WyJodHRwOi8veC9sLmZsYWMiXX0=''"

definition json_stream :: "string \<Rightarrow> string \<Rightarrow> stream_data" where
  "json_stream b64 quality =
     \<lparr>manifestMimeType = ''application/vnd.tidal.bts'', manifest = b64,
      audioQuality = quality, audioMode = ''STEREO''\<rparr>"

definition fixture_backend :: "SessionType \<Rightarrow> string \<Rightarrow> string \<Rightarrow> error + stream_data option" where
  "fixture_backend session track_id quality =
     (if track_id = ''locked'' then Inl (TidalRequestError ''Asset is not ready for playback'')
      else if track_id = ''relock'' \<and> quality = ''LOSSLESS''
           then Inl (TidalRequestError ''Asset is not ready for playback'')
      else if quality = ''LOSSLESS'' then Inr (Some (json_stream flac_b64 ''LOSSLESS''))
      else if track_id = ''mqa'' \<or> track_id = ''relock'' then Inr (Some (json_stream mqa_b64 quality))
      else if track_id = ''dashmqa''
           then Inr (Some \<lparr>manifestMimeType = ''application/dash+xml'', manifest = mqa_dash_b64,
                           audioQuality = quality, audioMode = ''STEREO''\<rparr>)
      else if quality = ''HI_RES_LOSSLESS''
           then Inr (Some \<lparr>manifestMimeType = ''application/dash+xml'', manifest = scenario_D_b64,
                           audioQuality = ''HI_RES_LOSSLESS'', audioMode = ''STEREO''\<rparr>)
      else Inr (Some (json_stream aac_b64 quality)))"

definition fixture_env :: env where
  "fixture_env =
     \<lparr>utf8_decode = Some,
      fromstring = (\<lambda>s. if s = scenario_D_stripped then Some scenario_D_doc
                         else if s = empty_period_xml then Some empty_period_doc
                         else if s = video_xml then Some video_doc
                         else if s = mqa_dash_xml then Some mqa_dash_doc
                         else if s = repeated_xmlns_stripped then Some repeated_xmlns_doc
                         else None),
      b64decode = (\<lambda>s. if s = scenario_D_b64 then Some scenario_D_xml
                        else if s = mqa_dash_b64 then Some mqa_dash_xml
                        else if s = aac_b64 then Some aac_json
                        else if s = mqa_b64 then Some mqa_json
                        else if s = flac_b64 then Some flac_json else None),
      json_loads = (\<lambda>s. if s = aac_json
                          then Some \<lparr>codecs = Some ''mp4a.40.2'', json_urls = Some [''http://x/a.m4a'']\<rparr>
                         else if s = mqa_json
                          then Some \<lparr>codecs = Some ''mqa'', json_urls = Some [''http://x/m.flac'']\<rparr>
                         else if s = flac_json
                          then Some \<lparr>codecs = Some ''flac'', json_urls = Some [''http://x/l.flac'']\<rparr>
                         else None),
      codec_member = (\<lambda>c. c \<in> set [''FLAC'', ''ALAC'', ''WAV'', ''MQA'', ''OPUS'', ''VORBIS'', ''MP3'',
                                      ''AAC'', ''HEAAC'', ''MHA1'', ''MHM1'', ''EAC3'', ''AC4'', ''AC3'', ''NONE'']),
      codec_spatial = (\<lambda>c. c \<in> set [''MHA1'', ''MHM1'', ''EAC3'', ''AC4'', ''AC3'']),
      codec_proprietary = (\<lambda>c. c \<in> set [''MQA'', ''EAC3'', ''AC4'', ''AC3'']),
      get_stream_url = fixture_backend\<rparr>"

definition fixture_state :: "settings \<Rightarrow> module_state" where
  "fixture_state s =
     \<lparr>module_settings = s, available_sessions = init_available_sessions s, session_default = TV,
      requests = [], printed = [], mqa_probed = []\<rparr>"

definition default_settings :: settings where
  "default_settings = \<lparr>enable_mobile = True, prefer_ac4 = False, fix_mqa = True\<rparr>"

definition fixture_download_env :: "bool \<Rightarrow> download_env" where
  "fixture_download_env ffmpeg_works =
     \<lparr>download_to_temp = (\<lambda>u. case u of None \<Rightarrow> Inl TypeError
                                | Some url \<Rightarrow> Inr (''/tmp/'' @ url, ''<'' @ url @ ''>'')),
      temp_filenames = (''/tmp/merged'', ''/tmp/output''),
      container_name = (\<lambda>c. if c = ''FLAC'' then ''flac'' else ''m4a''),
      ffmpeg_run = (\<lambda>content out. if ffmpeg_works then Some content else None)\<rparr>"

definition fixture_track :: AudioTrack where
  "fixture_track = \<lparr>codec = ''FLAC'', sample_rate = 44100, bitrate = 1000000,
                    urls = [Some ''init'', Some ''seg1'']\<rparr>"

definition no_files :: download_state where
  "no_files = \<lparr>temp_files = (\<lambda>p. None), download_printed = []\<rparr>"

section \<open>The segment list of parse_mpd\<close>

lemma is_int_or: "is_int x \<Longrightarrow> int_or x d = Inr (int_val_or x d)"
  by (auto simp: is_int_def int_or_def int_val_or_def split: option.splits sum.splits if_splits)

lemma repeat_S_ok:
  "py_int ds = Inr d \<Longrightarrow>
   repeat_S (Some ds) n cur acc = Inr (cur + int n * d, acc @ map (\<lambda>k. cur + int k * d) [0..<n])"
proof (induction n arbitrary: cur acc)
  case 0 then show ?case by simp
next
  case (Suc n)
  have "map (\<lambda>k. cur + int k * d) [0..<Suc n] = cur # map (\<lambda>k. cur + d + int k * d) [0..<n]"
    by (simp add: upt_conv_Cons map_Suc_upt[symmetric] algebra_simps del: upt_Suc)
  with Suc show ?case by (simp add: algebra_simps del: upt_Suc)
qed

lemma timeline_loop_spec:
  "list_all wf_S ss \<Longrightarrow>
   timeline_loop ss cur acc = Inr (acc @ timeline_spec cur (map S_entry ss))"
proof (induction ss arbitrary: cur acc)
  case Nil then show ?case by simp
next
  case (Cons s ss)
  from Cons.prems have wf: "wf_S s" and rest: "list_all wf_S ss" by simp_all
  obtain t r d where e: "S_entry s = (t, r, d)" by (cases "S_entry s")
  define start where "start = (case t of None \<Rightarrow> cur | Some t' \<Rightarrow> t')"
  from wf obtain ds where d: "get s ''d'' = Some ds" "ds \<noteq> []" by (auto simp: wf_S_def)
  from wf d e have pd: "py_int ds = Inr d"
    by (auto simp: wf_S_def S_entry_def is_int_def int_or_def int_val_or_def split: sum.splits)
  from wf e have r: "int_or (get s ''r'') 0 = Inr r" and r0: "0 \<le> r"
    by (auto simp: wf_S_def is_int_or S_entry_def)
  from wf e have t: "(case get s ''t'' of None \<Rightarrow> Inr cur | Some t \<Rightarrow> if t = [] then Inr cur else py_int t)
      = Inr start"
    by (auto simp: start_def wf_S_def S_entry_def is_int_def int_or_def int_val_def split: option.splits sum.splits if_splits)
  have n: "start + int (nat (r + 1)) * d = start + (r + 1) * d" using r0 by simp
  have "timeline_loop (s # ss) cur acc =
      timeline_loop ss (start + (r + 1) * d) (acc @ map (\<lambda>k. start + int k * d) [0..<nat (r + 1)])"
    using r0 by (simp add: t r d(1) repeat_S_ok[OF pd] n del: upt_Suc)
  also have "\<dots> = Inr ((acc @ map (\<lambda>k. start + int k * d) [0..<nat (r + 1)]) @
      timeline_spec (start + (r + 1) * d) (map S_entry ss))"
    by (rule Cons.IH[OF rest])
  also have "\<dots> = Inr (acc @ timeline_spec cur (map S_entry (s # ss)))"
    by (simp add: e start_def Let_def del: upt_Suc)
  finally show ?case .
qed

lemma length_timeline_spec:
  "list_all (\<lambda>e. 0 \<le> fst (snd e)) es \<Longrightarrow>
   int (length (timeline_spec cur es)) = (\<Sum>e\<leftarrow>es. fst (snd e) + 1)"
  by (induction es arbitrary: cur) (auto simp: Let_def)


lemma bindE_simps [simp]: "bindE (Inl e) f = Inl e" "bindE (Inr x) f = f x"
  by (simp_all add: bindE_def)

lemma parse_representation_urls:
  assumes "wf_representation env (a, rep)"
  shows "\<exists>t. parse_representation env a rep = Inr t \<and> urls t = expected_urls rep"
proof -
  from assms obtain c st where c: "get rep ''codecs'' = Some c"
    and m: "codec_member env (if prefix ''MP4A'' (upper c) then ''AAC'' else upper c)"
    and st: "find_el rep ''SegmentTemplate'' = Some st" and wst: "wf_template st"
    and a: "get a ''contentType'' = Some ''audio''"
    and sr: "is_int (get rep ''audioSamplingRate'')" and bw: "is_int (get rep ''bandwidth'')"
    by (auto simp: wf_representation_def split: option.splits)
  from wst have sn: "int_or (get st ''startNumber'') 1 = Inr (start_number_of st)"
    by (simp add: wf_template_def is_int_or start_number_of_def)
  have tmpl: "template_of rep = st" by (simp add: template_of_def st)
  have ce: "CodecEnum env (if prefix ''MP4A'' (upper c) then ''AAC'' else upper c)
      = Inr (if prefix ''MP4A'' (upper c) then ''AAC'' else upper c)"
    using m by (simp add: CodecEnum_def)
  have tl: "(case find_el st ''SegmentTimeline'' of
                       None \<Rightarrow> Inr [get st ''initialization'']
                     | Some seg_timeline \<Rightarrow>
                         bindE (timeline_loop (findall seg_timeline ''S'') 0 []) (\<lambda>seg_time_list.
                         bindE (media_urls (get st ''media'')
                                  (map (\<lambda>k. start_number_of st + int k) [0..<length seg_time_list]))
                               (\<lambda>us. Inr ([get st ''initialization''] @ us)))) = Inr (expected_urls rep)"
  proof (cases "find_el st ''SegmentTimeline''")
    case None
    then show ?thesis by (simp add: expected_urls_def tmpl timeline_entries_def)
  next
    case (Some tline)
    with wst obtain med where med: "get st ''media'' = Some med" and wfs: "list_all wf_S (findall tline ''S'')"
      by (auto simp: wf_template_def)
    have mu: "media_urls (Some med) (map (\<lambda>k. start_number_of st + int k) [0..<n])
       = Inr (map (\<lambda>k. Some (replace ''$Number$'' (str (start_number_of st + int k)) med)) [0..<n])" for n
      by (simp add: media_urls_def comp_def)
    show ?thesis
      by (simp add: Some timeline_loop_spec[OF wfs] med mu expected_urls_def tmpl timeline_entries_def
            media_of_def Let_def)
  qed
  show ?thesis
    unfolding parse_representation_def
    by (simp add: a c st Let_def sn tl ce is_int_or[OF sr] is_int_or[OF bw])
qed

lemma parse_tracks_urls:
  "list_all (wf_representation env) rs \<Longrightarrow>
   \<exists>ts. parse_tracks env rs = Inr ts \<and> map urls ts = map (\<lambda>ar. expected_urls (snd ar)) rs"
proof (induction rs)
  case Nil then show ?case by simp
next
  case (Cons ar rs)
  then obtain ts where ts: "parse_tracks env rs = Inr ts" "map urls ts = map (\<lambda>ar. expected_urls (snd ar)) rs"
    by auto
  from Cons.prems have "wf_representation env (fst ar, snd ar)" by simp
  from parse_representation_urls[OF this] obtain t where
    t: "parse_representation env (fst ar) (snd ar) = Inr t" "urls t = expected_urls (snd ar)" by blast
  show ?case by (simp add: t ts)
qed

text \<open>
  C1. For a manifest whose text decodes and parses to a well-formed tree, parse_mpd
  returns one track per representation, in document order. The URL list of each track
  starts with the template's initialization URL; after it comes one media URL per
  timeline segment, where an entry with repeat count \<open>r\<close> counts \<open>r + 1\<close> times and the
  list of segment start times is the one the specification describes (an entry with no
  start time continues at the previous entry's end); the \<open>k\<close>-th media URL is the media
  pattern with \<open>$Number$\<close> replaced by the start number (1 when not declared) plus \<open>k\<close>.
  A template with no timeline gives the initialization URL alone.
\<close>

theorem parse_mpd_segment_urls:
  assumes "utf8_decode env xml = Some text"
    and "fromstring env (sub_xmlns text) = Some root"
    and "wf_manifest env root"
  shows "\<exists>tracks. parse_mpd env xml = Inr tracks \<and>
    length tracks = length (representations root) \<and>
    (\<forall>i<length tracks.
       let st = template_of (snd (representations root ! i));
           es = timeline_entries st;
           u = urls (tracks ! i)
       in u ! 0 = get st ''initialization'' \<and> get st ''initialization'' \<noteq> None \<and>
          int (length u) = 1 + (\<Sum>e\<leftarrow>es. fst (snd e) + 1) \<and>
          length u = 1 + length (timeline_spec 0 es) \<and>
          (\<forall>k<length u - 1.
             u ! Suc k = Some (replace ''$Number$'' (str (start_number_of st + int k)) (media_of st))))"
proof -
  from assms(3) have wf: "list_all (wf_representation env) (representations root)"
    by (simp add: wf_manifest_def)
  from parse_tracks_urls[OF wf] obtain ts where
    ts: "parse_tracks env (representations root) = Inr ts"
        "map urls ts = map (\<lambda>ar. expected_urls (snd ar)) (representations root)" by blast
  have p: "parse_mpd env xml = Inr ts" by (simp add: parse_mpd_def assms(1,2) ts(1))
  have len: "length ts = length (representations root)"
    using ts(2) by (metis length_map)
  have each: "let st = template_of (snd (representations root ! i));
           es = timeline_entries st;
           u = urls (ts ! i)
       in u ! 0 = get st ''initialization'' \<and> get st ''initialization'' \<noteq> None \<and>
          int (length u) = 1 + (\<Sum>e\<leftarrow>es. fst (snd e) + 1) \<and>
          length u = 1 + length (timeline_spec 0 es) \<and>
          (\<forall>k<length u - 1.
             u ! Suc k = Some (replace ''$Number$'' (str (start_number_of st + int k)) (media_of st)))"
    if i: "i < length ts" for i
  proof -
    define rep where "rep = snd (representations root ! i)"
    define st where "st = template_of rep"
    have u: "urls (ts ! i) = expected_urls rep"
      using ts(2) i len by (metis (no_types, lifting) nth_map rep_def)
    have "representations root ! i \<in> set (representations root)" using i len by simp
    with wf have wr: "wf_representation env (representations root ! i)" by (simp add: list_all_iff)
    then obtain st' where st': "find_el rep ''SegmentTemplate'' = Some st'" "wf_template st'"
      by (auto simp: wf_representation_def rep_def split: option.splits)
    then have wst: "wf_template st" by (simp add: st_def template_of_def)
    have nonneg: "list_all (\<lambda>e. 0 \<le> fst (snd e)) (timeline_entries st)"
      using wst by (auto simp: wf_template_def timeline_entries_def list_all_iff wf_S_def S_entry_def
          split: option.splits)
    show ?thesis
      unfolding Let_def rep_def[symmetric] st_def[symmetric] u
      using wst length_timeline_spec[OF nonneg, of 0]
      by (auto simp: expected_urls_def Let_def st_def[symmetric] wf_template_def simp del: upt_Suc)
  qed
  show ?thesis using p len each by blast
qed

text \<open>
  Scenario D of the specification: \<open>startNumber="1"\<close> and one entry
  \<open>S t="0" d="1000" r="2"\<close> give the initialization URL and the media URLs numbered
  1, 2, 3, four URLs in all.
\<close>

theorem scenario_D_four_urls:
  "wf_manifest fixture_env scenario_D_doc \<and>
   parse_mpd fixture_env scenario_D_xml =
       Inr [\<lparr>codec = ''FLAC'', sample_rate = 44100, bitrate = 1000000,
             urls = [Some ''http://x/init.mp4'', Some ''http://x/1.mp4'',
                     Some ''http://x/2.mp4'', Some ''http://x/3.mp4'']\<rparr>] \<and>
   (\<exists>tracks. parse_mpd fixture_env scenario_D_xml = Inr tracks \<and>
      length tracks = length (representations scenario_D_doc) \<and>
      (\<forall>i<length tracks.
       let st = template_of (snd (representations scenario_D_doc ! i));
           es = timeline_entries st;
           u = urls (tracks ! i)
       in u ! 0 = get st ''initialization'' \<and> get st ''initialization'' \<noteq> None \<and>
          int (length u) = 1 + (\<Sum>e\<leftarrow>es. fst (snd e) + 1) \<and>
          length u = 1 + length (timeline_spec 0 es) \<and>
          (\<forall>k<length u - 1.
             u ! Suc k = Some (replace ''$Number$'' (str (start_number_of st + int k)) (media_of st)))))"
proof -
  have h1: "utf8_decode fixture_env scenario_D_xml = Some scenario_D_xml"
    by (simp add: fixture_env_def)
  have h2: "fromstring fixture_env (sub_xmlns scenario_D_xml) = Some scenario_D_doc"
    by code_simp
  have h3: "wf_manifest fixture_env scenario_D_doc"
    by code_simp
  have v: "parse_mpd fixture_env scenario_D_xml =
       Inr [\<lparr>codec = ''FLAC'', sample_rate = 44100, bitrate = 1000000,
             urls = [Some ''http://x/init.mp4'', Some ''http://x/1.mp4'',
                     Some ''http://x/2.mp4'', Some ''http://x/3.mp4'']\<rparr>]"
    by code_simp
  from h3 v parse_mpd_segment_urls[OF h1 h2 h3] show ?thesis by (intro conjI)
qed

section \<open>The resolver\<close>

lemma resolve_requests: "requests (fst (resolve self co q tags)) = requests self"
  by (simp add: resolve_def Let_def)

lemma finish_state:
  "requests (fst (finish self sd at m cd)) = requests self \<and>
   session_default (fst (finish self sd at m cd)) = session_default self"
  by (auto simp: finish_def Let_def split: option.splits sum.splits)

lemma after_fetch_plain:
  assumes "read_manifest env None sd = Inr (at, m, cd)"
    and "\<not> (\<not> codec_spatial env cd \<and> \<not> proprietary_codecs co \<and> codec_proprietary env cd)"
  shows "after_fetch env self tid co sd = finish self sd at m cd"
  using assms by (auto simp: after_fetch_def)

lemma after_fetch_fallback:
  assumes "read_manifest env None sd = Inr (at, m, cd)"
    and "\<not> codec_spatial env cd" and "\<not> proprietary_codecs co" and "codec_proprietary env cd"
  shows "after_fetch env self tid co sd =
     (let self' = self\<lparr>printed := printed self @ [proprietary_message cd],
                      requests := requests self @ [(session_default self, tid, ''LOSSLESS'')]\<rparr>
      in case get_stream_url env (session_default self) tid ''LOSSLESS'' of
           Inl e \<Rightarrow> (self', Inl e)
         | Inr None \<Rightarrow> (self', Inl TypeError)
         | Inr (Some sd') \<Rightarrow>
             (case read_manifest env at sd' of
                Inl e \<Rightarrow> (self', Inl e)
              | Inr (at', m', cd') \<Rightarrow> finish self' sd' at' m' cd'))"
  using assms by (simp add: after_fetch_def)

lemma after_fetch_requests:
  "\<exists>rest. requests (fst (after_fetch env self tid co sd)) = requests self @ rest"
  by (auto simp: after_fetch_def Let_def finish_state split: sum.splits option.splits prod.splits)

lemma get_track_info_first_request:
  "\<exists>rest. requests (fst (get_track_info env self tid q co tags)) =
     requests self @
       (session_default (fst (resolve self co q tags)), tid, fst (snd (resolve self co q tags))) # rest"
proof -
  obtain self1 quality fmt where r: "resolve self co q tags = (self1, quality, fmt)"
    by (cases "resolve self co q tags")
  have rq: "requests self1 = requests self"
    using resolve_requests[of self co q tags] r by simp
  define self2 where "self2 = self1\<lparr>requests := requests self1 @ [(session_default self1, tid, quality)]\<rparr>"
  have "\<exists>rest. requests (fst (get_track_info env self tid q co tags)) =
      requests self @ (session_default self1, tid, quality) # rest"
  proof (cases "get_stream_url env (session_default self1) tid quality")
    case (Inl e)
    then show ?thesis
      by (cases e) (simp_all add: get_track_info_def r Let_def rq)
  next
    case (Inr x)
    show ?thesis
    proof (cases x)
      case None
      with Inr show ?thesis by (simp add: get_track_info_def r Let_def rq)
    next
      case (Some sd')
      from after_fetch_requests[of env self2 tid co sd'] obtain rest where
        "requests (fst (after_fetch env self2 tid co sd')) = requests self2 @ rest" by blast
      with Inr Some show ?thesis
        by (simp add: get_track_info_def r Let_def self2_def[symmetric])
           (simp add: self2_def rq)
    qed
  qed
  with r show ?thesis by simp
qed

text \<open>
  C2, as the claim states it, fails: with both spatial tags on the track and spatial
  codecs allowed the format is \<open>'360ra'\<close>, not an Atmos variant.
\<close>

theorem both_spatial_tags_counterexample:
  "select_format (fixture_state default_settings) \<lparr>spatial_codecs = True, proprietary_codecs = True\<rparr>
      HIFI [''DOLBY_ATMOS'', ''SONY_360RA''] = Some Fmt_360ra \<and>
   snd (snd (resolve (fixture_state default_settings) \<lparr>spatial_codecs = True, proprietary_codecs = True\<rparr>
      HIFI [''DOLBY_ATMOS'', ''SONY_360RA''])) = Some Fmt_360ra"
  by (simp add: select_format_def resolve_def select_session_def session_of_format_def
      fixture_state_def default_settings_def init_available_sessions_def Let_def)

text \<open>
  C2, amended. With spatial codecs allowed the resolver first looks for the tag
  \<open>SONY_360RA\<close> and, when it is there, chooses \<open>'360ra'\<close>; only when it is absent does it
  look for \<open>DOLBY_ATMOS\<close> and choose \<open>'ac4'\<close> or \<open>'ac3'\<close> by the setting \<open>prefer_ac4\<close>. So
  with both tags \<open>'360ra'\<close> wins, and resolve returns it with the mobile default session
  whenever that session is available.
\<close>

theorem spatial_tag_order:
  assumes "spatial_codecs co"
  shows "(''SONY_360RA'' \<in> set tags \<longrightarrow> select_format self co q tags = Some Fmt_360ra) \<and>
    (''SONY_360RA'' \<notin> set tags \<and> ''DOLBY_ATMOS'' \<in> set tags \<longrightarrow>
       select_format self co q tags =
         (if prefer_ac4 (module_settings self) then Some Fmt_ac4 else Some Fmt_ac3)) \<and>
    (''SONY_360RA'' \<in> set tags \<and> MOBILE_DEFAULT \<in> set (available_sessions self) \<longrightarrow>
       resolve self co q tags = (self\<lparr>session_default := MOBILE_DEFAULT\<rparr>, quality_parse q, Some Fmt_360ra))"
  using assms
  by (simp add: select_format_def resolve_def select_session_def session_of_format_def Let_def)

theorem spatial_tag_order_witness:
  "spatial_codecs \<lparr>spatial_codecs = True, proprietary_codecs = True\<rparr> \<and>
   resolve (fixture_state default_settings) \<lparr>spatial_codecs = True, proprietary_codecs = True\<rparr>
      LOSSLESS [''DOLBY_ATMOS'', ''SONY_360RA''] =
     ((fixture_state default_settings)\<lparr>session_default := MOBILE_DEFAULT\<rparr>, ''LOSSLESS'', Some Fmt_360ra) \<and>
   select_format (fixture_state default_settings) \<lparr>spatial_codecs = True, proprietary_codecs = True\<rparr>
      LOSSLESS [''DOLBY_ATMOS''] = Some Fmt_ac3"
proof -
  have h: "spatial_codecs \<lparr>spatial_codecs = True, proprietary_codecs = True\<rparr>" by simp
  have a: "MOBILE_DEFAULT \<in> set (available_sessions (fixture_state default_settings))"
    by (simp add: fixture_state_def default_settings_def init_available_sessions_def)
  have p: "\<not> prefer_ac4 (module_settings (fixture_state default_settings))"
    by (simp add: fixture_state_def default_settings_def)
  show ?thesis
    using spatial_tag_order[OF h, of "[''DOLBY_ATMOS'', ''SONY_360RA'']" "fixture_state default_settings" LOSSLESS]
      spatial_tag_order[OF h, of "[''DOLBY_ATMOS'']" "fixture_state default_settings" LOSSLESS] a p
    by (simp add: quality_parse_def)
qed

lemma sessions_consistent_resolve:
  "sessions_consistent self \<Longrightarrow> sessions_consistent (fst (resolve self co q tags))"
  by (auto simp: sessions_consistent_def resolve_def Let_def)

lemma finish_fields:
  "available_sessions (fst (finish self sd at m cd)) = available_sessions self \<and>
   module_settings (fst (finish self sd at m cd)) = module_settings self \<and>
   session_default (fst (finish self sd at m cd)) = session_default self"
  by (auto simp: finish_def Let_def split: option.splits sum.splits)

lemma after_fetch_fields:
  "available_sessions (fst (after_fetch env self tid co sd)) = available_sessions self \<and>
   module_settings (fst (after_fetch env self tid co sd)) = module_settings self \<and>
   session_default (fst (after_fetch env self tid co sd)) = session_default self"
  by (auto simp: after_fetch_def Let_def finish_fields split: sum.splits option.splits prod.splits)

lemma sessions_consistent_get_track_info:
  assumes "sessions_consistent self"
  shows "sessions_consistent (fst (get_track_info env self tid q co tags))"
proof -
  obtain self1 quality fmt where r: "resolve self co q tags = (self1, quality, fmt)"
    by (cases "resolve self co q tags")
  from sessions_consistent_resolve[OF assms, of co q tags] r
  have c1: "sessions_consistent self1" by simp
  define self2 where "self2 = self1\<lparr>requests := requests self1 @ [(session_default self1, tid, quality)]\<rparr>"
  from c1 have c2: "sessions_consistent self2" by (auto simp: sessions_consistent_def self2_def)
  have "sessions_consistent (fst (after_fetch env self2 tid co sd))" for sd
    using c2 after_fetch_fields[of env self2 tid co sd] by (auto simp: sessions_consistent_def)
  then show ?thesis
    using c2 unfolding get_track_info_def r
    by (auto simp: Let_def self2_def[symmetric] split: sum.splits option.splits error.splits)
qed

lemma sessions_consistent_initial:
  "sessions_consistent (fixture_state s)"
  by (simp add: sessions_consistent_def fixture_state_def init_available_sessions_def)

lemma unavailable_means_tv_only:
  assumes "sessions_consistent self" and "session \<notin> set (available_sessions self)"
  shows "session_default self = TV"
proof -
  from assms have "available_sessions self = [TV]"
    by (cases session) (auto simp: sessions_consistent_def init_available_sessions_def split: if_splits)
  with assms(1) show ?thesis by (simp add: sessions_consistent_def)
qed

text \<open>
  C3. When the tags contain \<open>DOLBY_ATMOS\<close> and spatial codecs are allowed, the selection
  step picks a spatial format (never none, never hi-res lossless), and resolve returns
  that format with its session, not a direct format, when the format's session is among
  the available ones. When it is not, resolve returns no format with the tier table's
  quality string and assigns no session: the state is as it was, and in a state the
  module produces the backend's session is then TV, the session of "no format".
\<close>

theorem atmos_selects_spatial_format:
  assumes "''DOLBY_ATMOS'' \<in> set tags" and "spatial_codecs co"
  shows "\<exists>f. select_format self co q tags = Some f \<and> f \<noteq> Fmt_flac_hires \<and>
     (session_of_format (Some f) \<in> set (available_sessions self) \<longrightarrow>
        resolve self co q tags =
          (self\<lparr>session_default := session_of_format (Some f)\<rparr>, quality_parse q, Some f)) \<and>
     (session_of_format (Some f) \<notin> set (available_sessions self) \<longrightarrow>
        resolve self co q tags = (self, quality_parse q, None) \<and>
        (sessions_consistent self \<longrightarrow>
           session_default (fst (resolve self co q tags)) = TV \<and> session_of_format None = TV))"
proof -
  from assms have "\<exists>f. select_format self co q tags = Some f \<and> f \<noteq> Fmt_flac_hires"
    by (simp add: select_format_def Let_def)
  then obtain f where f: "select_format self co q tags = Some f" "f \<noteq> Fmt_flac_hires"
    by blast
  have av: "resolve self co q tags =
          (self\<lparr>session_default := session_of_format (Some f)\<rparr>, quality_parse q, Some f)"
    if "session_of_format (Some f) \<in> set (available_sessions self)"
    using that f by (auto simp: resolve_def select_session_def Let_def)
  have un: "resolve self co q tags = (self, quality_parse q, None)"
    if "session_of_format (Some f) \<notin> set (available_sessions self)"
    using that f by (auto simp: resolve_def select_session_def Let_def)
  have tv: "session_default (fst (resolve self co q tags)) = TV \<and> session_of_format None = TV"
    if "session_of_format (Some f) \<notin> set (available_sessions self)" "sessions_consistent self"
    using un[OF that(1)] unavailable_means_tv_only[OF that(2) that(1)]
    by (simp add: session_of_format_def)
  from f av un tv show ?thesis by blast
qed

text \<open>
  The two cases: with the mobile sessions, an Atmos track at tier HiFi resolves to
  \<open>'ac3'\<close> on the TV session; with \<open>enable_mobile\<close> off and \<open>prefer_ac4\<close> on, the format
  \<open>'ac4'\<close> is dropped, the quality string is the table's \<open>HI_RES\<close> and the session is TV.
\<close>

theorem atmos_selects_spatial_format_witness:
  "''DOLBY_ATMOS'' \<in> set [''DOLBY_ATMOS''] \<and>
   spatial_codecs \<lparr>spatial_codecs = True, proprietary_codecs = True\<rparr> \<and>
   resolve (fixture_state default_settings) \<lparr>spatial_codecs = True, proprietary_codecs = True\<rparr>
      HIFI [''DOLBY_ATMOS''] =
     ((fixture_state default_settings)\<lparr>session_default := TV\<rparr>, ''HI_RES'', Some Fmt_ac3) \<and>
   resolve (fixture_state \<lparr>enable_mobile = False, prefer_ac4 = True, fix_mqa = True\<rparr>)
      \<lparr>spatial_codecs = True, proprietary_codecs = True\<rparr> HIFI [''DOLBY_ATMOS''] =
     (fixture_state \<lparr>enable_mobile = False, prefer_ac4 = True, fix_mqa = True\<rparr>, ''HI_RES'', None) \<and>
   session_default (fst (resolve (fixture_state \<lparr>enable_mobile = False, prefer_ac4 = True, fix_mqa = True\<rparr>)
      \<lparr>spatial_codecs = True, proprietary_codecs = True\<rparr> HIFI [''DOLBY_ATMOS''])) = TV"
proof -
  have h1: "''DOLBY_ATMOS'' \<in> set [''DOLBY_ATMOS'']" by simp
  have h2: "spatial_codecs \<lparr>spatial_codecs = True, proprietary_codecs = True\<rparr>" by simp
  \<comment> \<open>every session available\<close>
  have s1: "select_format (fixture_state default_settings)
      \<lparr>spatial_codecs = True, proprietary_codecs = True\<rparr> HIFI [''DOLBY_ATMOS''] = Some Fmt_ac3"
    by (simp add: select_format_def fixture_state_def default_settings_def)
  have a1: "session_of_format (Some Fmt_ac3) \<in> set (available_sessions (fixture_state default_settings))"
    by (simp add: session_of_format_def fixture_state_def default_settings_def init_available_sessions_def)
  from atmos_selects_spatial_format[OF h1 h2, of "fixture_state default_settings" HIFI] s1 a1
  have v1: "resolve (fixture_state default_settings) \<lparr>spatial_codecs = True, proprietary_codecs = True\<rparr>
      HIFI [''DOLBY_ATMOS''] =
     ((fixture_state default_settings)\<lparr>session_default := TV\<rparr>, ''HI_RES'', Some Fmt_ac3)"
    by (auto simp: session_of_format_def quality_parse_def)
  \<comment> \<open>the TV session alone\<close>
  define tv where "tv = fixture_state \<lparr>enable_mobile = False, prefer_ac4 = True, fix_mqa = True\<rparr>"
  have s2: "select_format tv \<lparr>spatial_codecs = True, proprietary_codecs = True\<rparr> HIFI [''DOLBY_ATMOS'']
      = Some Fmt_ac4"
    by (simp add: select_format_def fixture_state_def tv_def)
  have a2: "session_of_format (Some Fmt_ac4) \<notin> set (available_sessions tv)"
    by (simp add: session_of_format_def fixture_state_def init_available_sessions_def tv_def)
  have c2: "sessions_consistent tv"
    unfolding tv_def by (rule sessions_consistent_initial)
  from atmos_selects_spatial_format[OF h1 h2, of tv HIFI] s2 a2 c2
  have v2: "resolve tv \<lparr>spatial_codecs = True, proprietary_codecs = True\<rparr> HIFI [''DOLBY_ATMOS''] =
      (tv, ''HI_RES'', None) \<and>
      session_default (fst (resolve tv \<lparr>spatial_codecs = True, proprietary_codecs = True\<rparr> HIFI
        [''DOLBY_ATMOS''])) = TV"
    by (auto simp: quality_parse_def)
  from h1 h2 v1 v2 show ?thesis unfolding tv_def by blast
qed

text \<open>
  C4, as the claim states it, fails: with \<open>enable_mobile\<close> off, tier HiFi with the tag
  \<open>HIRES_LOSSLESS\<close> and spatial codecs disallowed resolves to no format and \<open>HI_RES\<close>.
\<close>

theorem hires_without_mobile_counterexample:
  "resolve (fixture_state \<lparr>enable_mobile = False, prefer_ac4 = False, fix_mqa = True\<rparr>)
      \<lparr>spatial_codecs = False, proprietary_codecs = True\<rparr> HIFI [''HIRES_LOSSLESS''] =
     (fixture_state \<lparr>enable_mobile = False, prefer_ac4 = False, fix_mqa = True\<rparr>, ''HI_RES'', None)"
  by (simp add: select_format_def resolve_def select_session_def session_of_format_def
      fixture_state_def init_available_sessions_def Let_def quality_parse_def)

text \<open>
  C4, amended. The quality string that is requested is the tier's entry in the table
  Minimum, Low to \<open>LOW\<close>; Medium, High to \<open>HIGH\<close>; Lossless to \<open>LOSSLESS\<close>; HiFi to
  \<open>HI_RES\<close>, except that it is \<open>HI_RES_LOSSLESS\<close> when the format resolve ends with is
  \<open>'flac_hires'\<close>; it is the string of the first backend request. Tier HiFi with the tag
  \<open>HIRES_LOSSLESS\<close> and spatial codecs disallowed gives \<open>'flac_hires'\<close> and
  \<open>HI_RES_LOSSLESS\<close> when the mobile default session is available, and no format and
  \<open>HI_RES\<close> when it is not.
\<close>

theorem resolve_quality_string:
  "fst (snd (resolve self co q tags)) =
      (if snd (snd (resolve self co q tags)) = Some Fmt_flac_hires then ''HI_RES_LOSSLESS''
       else quality_parse q) \<and>
   map quality_parse [MINIMUM, LOW, MEDIUM, HIGH, LOSSLESS, HIFI] =
      [''LOW'', ''LOW'', ''HIGH'', ''HIGH'', ''LOSSLESS'', ''HI_RES''] \<and>
   (\<exists>rest. requests (fst (get_track_info env self tid q co tags)) =
      requests self @
        (session_default (fst (resolve self co q tags)), tid, fst (snd (resolve self co q tags))) # rest) \<and>
   (\<not> spatial_codecs co \<and> ''HIRES_LOSSLESS'' \<in> set tags \<longrightarrow>
      resolve self co HIFI tags =
        (if MOBILE_DEFAULT \<in> set (available_sessions self)
         then (self\<lparr>session_default := MOBILE_DEFAULT\<rparr>, ''HI_RES_LOSSLESS'', Some Fmt_flac_hires)
         else (self, ''HI_RES'', None)))"
proof -
  have "fst (snd (resolve self co q tags)) =
      (if snd (snd (resolve self co q tags)) = Some Fmt_flac_hires then ''HI_RES_LOSSLESS''
       else quality_parse q)"
    by (simp add: resolve_def Let_def)
  moreover have "map quality_parse [MINIMUM, LOW, MEDIUM, HIGH, LOSSLESS, HIFI] =
      [''LOW'', ''LOW'', ''HIGH'', ''HIGH'', ''LOSSLESS'', ''HI_RES'']"
    by (simp add: quality_parse_def)
  moreover have "\<not> spatial_codecs co \<and> ''HIRES_LOSSLESS'' \<in> set tags \<longrightarrow>
      resolve self co HIFI tags =
        (if MOBILE_DEFAULT \<in> set (available_sessions self)
         then (self\<lparr>session_default := MOBILE_DEFAULT\<rparr>, ''HI_RES_LOSSLESS'', Some Fmt_flac_hires)
         else (self, ''HI_RES'', None))"
    by (simp add: select_format_def resolve_def select_session_def session_of_format_def Let_def
        quality_parse_def)
  ultimately show ?thesis
    using get_track_info_first_request[of env self tid q co tags] by blast
qed

text \<open>Scenario A of the specification, in a deployment with the mobile sessions.\<close>

theorem scenario_A_hires:
  "resolve (fixture_state default_settings) \<lparr>spatial_codecs = False, proprietary_codecs = True\<rparr>
      HIFI [''HIRES_LOSSLESS''] =
     ((fixture_state default_settings)\<lparr>session_default := MOBILE_DEFAULT\<rparr>,
      ''HI_RES_LOSSLESS'', Some Fmt_flac_hires)"
proof -
  have a: "MOBILE_DEFAULT \<in> set (available_sessions (fixture_state default_settings))"
    by (simp add: fixture_state_def default_settings_def init_available_sessions_def)
  from resolve_quality_string[of "fixture_state default_settings"
      "\<lparr>spatial_codecs = False, proprietary_codecs = True\<rparr>" HIFI "[''HIRES_LOSSLESS'']"] a
  show ?thesis by simp
qed

text \<open>
  C10, as the claim states it, fails: with \<open>enable_mobile\<close> off a track tagged
  \<open>DOLBY_ATMOS\<close> keeps the TV session, both when spatial codecs are disallowed and when
  the selected format \<open>'ac4'\<close> has no available session.
\<close>

theorem atmos_tv_only_counterexample:
  "session_default (fst (resolve (fixture_state \<lparr>enable_mobile = False, prefer_ac4 = False, fix_mqa = True\<rparr>)
      \<lparr>spatial_codecs = False, proprietary_codecs = True\<rparr> LOSSLESS [''DOLBY_ATMOS''])) = TV \<and>
   session_default (fst (resolve (fixture_state \<lparr>enable_mobile = False, prefer_ac4 = True, fix_mqa = True\<rparr>)
      \<lparr>spatial_codecs = True, proprietary_codecs = True\<rparr> LOSSLESS [''DOLBY_ATMOS''])) = TV"
  by (simp add: select_format_def resolve_def select_session_def session_of_format_def
      fixture_state_def init_available_sessions_def Let_def quality_parse_def)

text \<open>
  C10, amended. For a track tagged \<open>DOLBY_ATMOS\<close> with no format selected (as whenever
  spatial codecs are disallowed, where the selection is none or hi-res lossless) the
  session the resolver asks for is the mobile default one, not TV. When that session
  is among the available ones it becomes the backend's session and the manifest request
  goes to it; when the session asked for is not available (the mobile default one, or the
  one of a selected format) the state is left as it was and no switch happens.
\<close>

theorem atmos_without_format_session:
  assumes "''DOLBY_ATMOS'' \<in> set tags"
  shows "(\<not> spatial_codecs co \<longrightarrow>
            select_session (select_format self co q tags) tags = MOBILE_DEFAULT) \<and>
         (select_format self co q tags = None \<longrightarrow>
            select_session (select_format self co q tags) tags = MOBILE_DEFAULT) \<and>
         (select_session (select_format self co q tags) tags = MOBILE_DEFAULT \<and>
          MOBILE_DEFAULT \<in> set (available_sessions self) \<longrightarrow>
            session_default (fst (resolve self co q tags)) = MOBILE_DEFAULT \<and>
            (\<exists>rest. requests (fst (get_track_info env self tid q co tags)) =
               requests self @ (MOBILE_DEFAULT, tid, fst (snd (resolve self co q tags))) # rest)) \<and>
         (select_session (select_format self co q tags) tags \<notin> set (available_sessions self) \<longrightarrow>
            fst (resolve self co q tags) = self)"
proof -
  have sel: "\<not> spatial_codecs co \<longrightarrow> select_session (select_format self co q tags) tags = MOBILE_DEFAULT"
    using assms by (simp add: select_format_def select_session_def session_of_format_def Let_def)
  have none: "select_format self co q tags = None \<longrightarrow>
      select_session (select_format self co q tags) tags = MOBILE_DEFAULT"
    using assms by (simp add: select_session_def)
  have unavailable: "select_session (select_format self co q tags) tags \<notin> set (available_sessions self) \<longrightarrow>
      fst (resolve self co q tags) = self"
    by (simp add: resolve_def Let_def)
  have switch: "session_default (fst (resolve self co q tags)) = MOBILE_DEFAULT \<and>
        (\<exists>rest. requests (fst (get_track_info env self tid q co tags)) =
               requests self @ (MOBILE_DEFAULT, tid, fst (snd (resolve self co q tags))) # rest)"
    if s: "select_session (select_format self co q tags) tags = MOBILE_DEFAULT"
      and a: "MOBILE_DEFAULT \<in> set (available_sessions self)"
  proof -
    have sd: "session_default (fst (resolve self co q tags)) = MOBILE_DEFAULT"
      using s a by (simp add: resolve_def Let_def)
    with get_track_info_first_request[of env self tid q co tags] show ?thesis by simp
  qed
  from sel none unavailable switch show ?thesis by blast
qed

theorem atmos_without_format_session_witness:
  "''DOLBY_ATMOS'' \<in> set [''DOLBY_ATMOS''] \<and>
   select_format (fixture_state default_settings) \<lparr>spatial_codecs = False, proprietary_codecs = True\<rparr>
      LOSSLESS [''DOLBY_ATMOS''] = None \<and>
   session_default (fst (resolve (fixture_state default_settings)
      \<lparr>spatial_codecs = False, proprietary_codecs = True\<rparr> LOSSLESS [''DOLBY_ATMOS''])) = MOBILE_DEFAULT \<and>
   requests (fst (get_track_info fixture_env (fixture_state default_settings) ''1'' LOSSLESS
      \<lparr>spatial_codecs = False, proprietary_codecs = True\<rparr> [''DOLBY_ATMOS''])) =
     [(MOBILE_DEFAULT, ''1'', ''LOSSLESS'')]"
proof -
  have h: "''DOLBY_ATMOS'' \<in> set [''DOLBY_ATMOS'']" by simp
  have n: "select_format (fixture_state default_settings) \<lparr>spatial_codecs = False, proprietary_codecs = True\<rparr>
      LOSSLESS [''DOLBY_ATMOS''] = None"
    by (simp add: select_format_def)
  have a: "MOBILE_DEFAULT \<in> set (available_sessions (fixture_state default_settings))"
    by (simp add: fixture_state_def default_settings_def init_available_sessions_def)
  have v: "requests (fst (get_track_info fixture_env (fixture_state default_settings) ''1'' LOSSLESS
      \<lparr>spatial_codecs = False, proprietary_codecs = True\<rparr> [''DOLBY_ATMOS''])) =
     [(MOBILE_DEFAULT, ''1'', ''LOSSLESS'')]"
    by code_simp
  from atmos_without_format_session[OF h, of "\<lparr>spatial_codecs = False, proprietary_codecs = True\<rparr>"
      "fixture_state default_settings" LOSSLESS fixture_env "''1''"] n a
  have "session_default (fst (resolve (fixture_state default_settings)
      \<lparr>spatial_codecs = False, proprietary_codecs = True\<rparr> LOSSLESS [''DOLBY_ATMOS''])) = MOBILE_DEFAULT"
    by simp
  with h n v show ?thesis by simp
qed

section \<open>Fetching the manifest\<close>

lemma finish_result:
  "snd (finish self sd at m cd) = snd (finish self' sd at m cd)"
  by (auto simp: finish_def Let_def split: option.splits sum.splits)

lemma finish_codec:
  "snd (finish self sd at m cd) = Inr info \<Longrightarrow> track_codec info = cd"
  by (auto simp: finish_def Let_def bindE_def split: option.splits sum.splits)

lemma finish_requests: "requests (fst (finish self sd at m cd)) = requests self"
  by (simp add: finish_state)

lemma finish_session: "session_default (fst (finish self sd at m cd)) = session_default self"
  by (simp add: finish_state)

lemma get_track_info_fetched:
  assumes "resolve self co q tags = (self1, quality, fmt)"
    and "get_stream_url env (session_default self1) tid quality = Inr (Some sd)"
  shows "get_track_info env self tid q co tags =
     after_fetch env (self1\<lparr>requests := requests self @ [(session_default self1, tid, quality)]\<rparr>)
       tid co sd"
proof -
  have "requests self1 = requests self"
    using resolve_requests[of self co q tags] assms(1) by simp
  with assms show ?thesis by (simp add: get_track_info_def Let_def)
qed

text \<open>
  The proprietary fallback. When the first fetch succeeds and its manifest reads to a codec that is not
  spatial and is proprietary while proprietary codecs are disallowed, get_track_info
  makes exactly two backend requests: the first at the resolved quality string and the
  second at \<open>LOSSLESS\<close>, for the same track and the same session, whatever the tier was;
  the session does not change. The second response is read in turn, and the result
  (codec, bitrate, download arguments) is computed from the second stream data and what
  reading its manifest gives, so its codec is the second manifest's codec; that reading
  starts from the audio track of the first manifest, which only a segmented second
  manifest replaces. In every other case where the first fetch and read succeed there is
  one request only.
\<close>

theorem proprietary_fallback_refetch:
  assumes r: "resolve self co q tags = (self1, quality, fmt)"
    and f1: "get_stream_url env (session_default self1) tid quality = Inr (Some sd)"
    and m1: "read_manifest env None sd = Inr (at, m, cd)"
  shows "(\<not> codec_spatial env cd \<and> \<not> proprietary_codecs co \<and> codec_proprietary env cd \<longrightarrow>
            requests (fst (get_track_info env self tid q co tags)) =
              requests self @ [(session_default self1, tid, quality),
                               (session_default self1, tid, ''LOSSLESS'')] \<and>
            session_default (fst (get_track_info env self tid q co tags)) = session_default self1 \<and>
            (\<forall>sd' at' m' cd'.
               get_stream_url env (session_default self1) tid ''LOSSLESS'' = Inr (Some sd') \<and>
               read_manifest env at sd' = Inr (at', m', cd') \<longrightarrow>
                 snd (get_track_info env self tid q co tags) = snd (finish self1 sd' at' m' cd') \<and>
                 (\<forall>info. snd (get_track_info env self tid q co tags) = Inr info \<longrightarrow>
                    track_codec info = cd'))) \<and>
         (\<not> (\<not> codec_spatial env cd \<and> \<not> proprietary_codecs co \<and> codec_proprietary env cd) \<longrightarrow>
            requests (fst (get_track_info env self tid q co tags)) =
              requests self @ [(session_default self1, tid, quality)])"
proof -
  define self2 where
    "self2 = self1\<lparr>requests := requests self @ [(session_default self1, tid, quality)]\<rparr>"
  have g: "get_track_info env self tid q co tags = after_fetch env self2 tid co sd"
    unfolding self2_def by (rule get_track_info_fetched[OF r f1])
  have s2: "session_default self2 = session_default self1"
    and r2: "requests self2 = requests self @ [(session_default self1, tid, quality)]"
    by (simp_all add: self2_def)
  have plain: "requests (fst (get_track_info env self tid q co tags)) =
      requests self @ [(session_default self1, tid, quality)]"
    if "\<not> (\<not> codec_spatial env cd \<and> \<not> proprietary_codecs co \<and> codec_proprietary env cd)"
    using after_fetch_plain[OF m1 that, of self2 tid] by (simp add: g finish_requests r2)
  have fallback: "requests (fst (get_track_info env self tid q co tags)) =
              requests self @ [(session_default self1, tid, quality),
                               (session_default self1, tid, ''LOSSLESS'')] \<and>
            session_default (fst (get_track_info env self tid q co tags)) = session_default self1 \<and>
            (\<forall>sd' at' m' cd'.
               get_stream_url env (session_default self1) tid ''LOSSLESS'' = Inr (Some sd') \<and>
               read_manifest env at sd' = Inr (at', m', cd') \<longrightarrow>
                 snd (get_track_info env self tid q co tags) = snd (finish self1 sd' at' m' cd') \<and>
                 (\<forall>info. snd (get_track_info env self tid q co tags) = Inr info \<longrightarrow>
                    track_codec info = cd'))"
    if c: "\<not> codec_spatial env cd" "\<not> proprietary_codecs co" "codec_proprietary env cd"
  proof -
    define self3 where
      "self3 = self2\<lparr>printed := printed self2 @ [proprietary_message cd],
                     requests := requests self2 @ [(session_default self2, tid, ''LOSSLESS'')]\<rparr>"
    have a: "after_fetch env self2 tid co sd =
       (case get_stream_url env (session_default self2) tid ''LOSSLESS'' of
           Inl e \<Rightarrow> (self3, Inl e)
         | Inr None \<Rightarrow> (self3, Inl TypeError)
         | Inr (Some sd') \<Rightarrow>
             (case read_manifest env at sd' of
                Inl e \<Rightarrow> (self3, Inl e)
              | Inr (at', m', cd') \<Rightarrow> finish self3 sd' at' m' cd'))"
      unfolding self3_def by (rule after_fetch_fallback[OF m1 c, of self2 tid, unfolded Let_def])
    have r3: "requests self3 = requests self @ [(session_default self1, tid, quality),
                               (session_default self1, tid, ''LOSSLESS'')]"
      and s3: "session_default self3 = session_default self1"
      by (simp_all add: self3_def r2 s2)
    have req: "requests (fst (after_fetch env self2 tid co sd)) = requests self3"
      and ses: "session_default (fst (after_fetch env self2 tid co sd)) = session_default self3"
      unfolding a
      by (auto simp: finish_requests finish_session split: sum.splits option.splits prod.splits)
    have res: "snd (after_fetch env self2 tid co sd) = snd (finish self1 sd' at' m' cd')"
      if "get_stream_url env (session_default self1) tid ''LOSSLESS'' = Inr (Some sd')"
        and "read_manifest env at sd' = Inr (at', m', cd')" for sd' at' m' cd'
      unfolding a using that finish_result[of self3 sd' at' m' cd' self1] by (simp add: s2)
    show ?thesis
      using req ses res finish_codec by (simp add: g r3 s3)
  qed
  from plain fallback show ?thesis by blast
qed

text \<open>
  The fallback at tier Low: the backend answers the request at \<open>LOW\<close> with an MQA
  manifest, proprietary codecs are disallowed, and the second request is at \<open>LOSSLESS\<close>.
\<close>

theorem proprietary_fallback_at_low_tier:
  "get_track_info fixture_env (fixture_state default_settings) ''mqa'' LOW
      \<lparr>spatial_codecs = False, proprietary_codecs = False\<rparr> [] =
     ((fixture_state default_settings)
        \<lparr>session_default := TV,
         requests := [(TV, ''mqa'', ''LOW''), (TV, ''mqa'', ''LOSSLESS'')],
         printed := [proprietary_message ''MQA'']\<rparr>,
      Inr \<lparr>track_codec = ''FLAC'', track_bitrate = Some 1411,
           download_extra_kwargs = Some (FileUrlArgs ''http://x/l.flac'' ''FLAC''),
           track_error = None\<rparr>) \<and>
   requests (fst (get_track_info fixture_env (fixture_state default_settings) ''mqa'' LOW
      \<lparr>spatial_codecs = False, proprietary_codecs = False\<rparr> [])) =
     requests (fixture_state default_settings) @ [(TV, ''mqa'', ''LOW''), (TV, ''mqa'', ''LOSSLESS'')]"
proof -
  have r: "resolve (fixture_state default_settings) \<lparr>spatial_codecs = False, proprietary_codecs = False\<rparr>
      LOW [] = ((fixture_state default_settings)\<lparr>session_default := TV\<rparr>, ''LOW'', None)"
    by (simp add: select_format_def resolve_def select_session_def session_of_format_def
      fixture_state_def default_settings_def init_available_sessions_def Let_def quality_parse_def)
  have f: "get_stream_url fixture_env (session_default ((fixture_state default_settings)\<lparr>session_default := TV\<rparr>))
      ''mqa'' ''LOW'' = Inr (Some (json_stream mqa_b64 ''LOW''))"
    by code_simp
  have m: "read_manifest fixture_env None (json_stream mqa_b64 ''LOW'') =
      Inr (None, Json \<lparr>codecs = Some ''mqa'', json_urls = Some [''http://x/m.flac'']\<rparr>, ''MQA'')"
    by code_simp
  have c: "\<not> codec_spatial fixture_env ''MQA'' \<and>
      \<not> proprietary_codecs \<lparr>spatial_codecs = False, proprietary_codecs = False\<rparr> \<and>
      codec_proprietary fixture_env ''MQA''"
    by (simp add: fixture_env_def)
  have v: "get_track_info fixture_env (fixture_state default_settings) ''mqa'' LOW
      \<lparr>spatial_codecs = False, proprietary_codecs = False\<rparr> [] =
     ((fixture_state default_settings)
        \<lparr>session_default := TV,
         requests := [(TV, ''mqa'', ''LOW''), (TV, ''mqa'', ''LOSSLESS'')],
         printed := [proprietary_message ''MQA'']\<rparr>,
      Inr \<lparr>track_codec = ''FLAC'', track_bitrate = Some 1411,
           download_extra_kwargs = Some (FileUrlArgs ''http://x/l.flac'' ''FLAC''),
           track_error = None\<rparr>)"
    by code_simp
  from proprietary_fallback_refetch[OF r f m] c
  have "requests (fst (get_track_info fixture_env (fixture_state default_settings) ''mqa'' LOW
      \<lparr>spatial_codecs = False, proprietary_codecs = False\<rparr> [])) =
     requests (fixture_state default_settings) @ [(TV, ''mqa'', ''LOW''), (TV, ''mqa'', ''LOSSLESS'')]"
    by simp
  with v show ?thesis by blast
qed

text \<open>
  A region lock on the first request. When the backend answers the stream request with a
  TidalRequestError whose text
  contains \<open>Asset is not ready for playback\<close>, get_track_info does not raise: it
  returns a TrackInfo whose error annotation is \<open>Error: Track [id] is not available in
  your region\<close>, with no download arguments and no bitrate (the codec is the default
  FLAC), after that one request.
\<close>

theorem region_lock_annotated:
  assumes "get_stream_url env (session_default (fst (resolve self co q tags))) tid
             (fst (snd (resolve self co q tags))) = Inl (TidalRequestError msg)"
    and "contains ''Asset is not ready for playback'' msg"
  shows "snd (get_track_info env self tid q co tags) =
           Inr \<lparr>track_codec = ''FLAC'', track_bitrate = None, download_extra_kwargs = None,
                track_error = Some (''Error: Track ['' @ tid @ ''] is not available in your region'')\<rparr> \<and>
         requests (fst (get_track_info env self tid q co tags)) =
           requests self @ [(session_default (fst (resolve self co q tags)), tid,
                             fst (snd (resolve self co q tags)))]"
proof -
  obtain self1 quality fmt where r: "resolve self co q tags = (self1, quality, fmt)"
    by (cases "resolve self co q tags")
  have rq: "requests self1 = requests self"
    using resolve_requests[of self co q tags] r by simp
  from assms(1) r have f: "get_stream_url env (session_default self1) tid quality =
      Inl (TidalRequestError msg)" by simp
  show ?thesis
    using assms(2) by (simp add: get_track_info_def r f Let_def region_error_def rq)
qed

theorem region_lock_annotated_witness:
  "get_track_info fixture_env (fixture_state default_settings) ''locked'' HIFI
      \<lparr>spatial_codecs = True, proprietary_codecs = True\<rparr> [''HIRES_LOSSLESS''] =
     ((fixture_state default_settings)
        \<lparr>session_default := MOBILE_DEFAULT,
         requests := [(MOBILE_DEFAULT, ''locked'', ''HI_RES_LOSSLESS'')]\<rparr>,
      Inr \<lparr>track_codec = ''FLAC'', track_bitrate = None, download_extra_kwargs = None,
           track_error = Some ''Error: Track [locked] is not available in your region''\<rparr>)"
proof -
  have f: "get_stream_url fixture_env
      (session_default (fst (resolve (fixture_state default_settings)
         \<lparr>spatial_codecs = True, proprietary_codecs = True\<rparr> HIFI [''HIRES_LOSSLESS''])))
      ''locked''
      (fst (snd (resolve (fixture_state default_settings)
         \<lparr>spatial_codecs = True, proprietary_codecs = True\<rparr> HIFI [''HIRES_LOSSLESS''])))
      = Inl (TidalRequestError ''Asset is not ready for playback'')"
    by (simp add: fixture_env_def fixture_backend_def)
  have c: "contains ''Asset is not ready for playback'' ''Asset is not ready for playback''"
    by simp
  have st: "fst (get_track_info fixture_env (fixture_state default_settings) ''locked'' HIFI
      \<lparr>spatial_codecs = True, proprietary_codecs = True\<rparr> [''HIRES_LOSSLESS'']) =
     (fixture_state default_settings)
        \<lparr>session_default := MOBILE_DEFAULT,
         requests := [(MOBILE_DEFAULT, ''locked'', ''HI_RES_LOSSLESS'')]\<rparr>"
    by code_simp
  from region_lock_annotated[OF f c]
  have "snd (get_track_info fixture_env (fixture_state default_settings) ''locked'' HIFI
      \<lparr>spatial_codecs = True, proprietary_codecs = True\<rparr> [''HIRES_LOSSLESS'']) =
      Inr \<lparr>track_codec = ''FLAC'', track_bitrate = None, download_extra_kwargs = None,
           track_error = Some ''Error: Track [locked] is not available in your region''\<rparr>"
    by simp
  with st show ?thesis by (simp add: prod_eq_iff)
qed

text \<open>
  C5, at an input where the claim fails. The first manifest is segmented with codec
  \<open>mqa\<close>, proprietary codecs are disallowed, and the answer to the request at \<open>LOSSLESS\<close>
  is a direct JSON manifest with codec \<open>flac\<close>. The two requests are made as the claim
  says, and the codec is the second manifest's; but the download arguments and the
  bitrate are those of the first manifest's audio track, which the second read does not
  replace: the first manifest is not discarded.
\<close>

theorem refetch_keeps_first_audio_track:
  "get_track_info fixture_env (fixture_state default_settings) ''dashmqa'' HIFI
      \<lparr>spatial_codecs = False, proprietary_codecs = False\<rparr> [] =
     ((fixture_state default_settings)
        \<lparr>session_default := TV,
         requests := [(TV, ''dashmqa'', ''HI_RES''), (TV, ''dashmqa'', ''LOSSLESS'')],
         printed := [proprietary_message ''MQA'']\<rparr>,
      Inr \<lparr>track_codec = ''FLAC'', track_bitrate = Some 2000,
           download_extra_kwargs =
             Some (AudioTrackArgs \<lparr>codec = ''MQA'', sample_rate = 0, bitrate = 2000000,
                                    urls = [Some ''http://x/i.mp4'']\<rparr>),
           track_error = None\<rparr>)"
  by code_simp

text \<open>
  C9, at an input where the claim fails. The first request is answered with a direct
  manifest of codec \<open>mqa\<close>, proprietary codecs are disallowed, and the backend answers the
  request at \<open>LOSSLESS\<close> with the TidalRequestError \<open>Asset is not ready for playback\<close>.
  That request stands outside the \<open>try\<close>: get_track_info raises the error instead of
  returning an annotated result.
\<close>

theorem region_lock_on_refetch_raises:
  "get_track_info fixture_env (fixture_state default_settings) ''relock'' HIFI
      \<lparr>spatial_codecs = False, proprietary_codecs = False\<rparr> [] =
     ((fixture_state default_settings)
        \<lparr>session_default := TV,
         requests := [(TV, ''relock'', ''HI_RES''), (TV, ''relock'', ''LOSSLESS'')],
         printed := [proprietary_message ''MQA'']\<rparr>,
      Inl (TidalRequestError ''Asset is not ready for playback''))"
  by code_simp

section \<open>Failures of parse_mpd\<close>

lemma parse_tracks_fails_iff:
  "(\<exists>e. parse_tracks env rs = Inl e) \<longleftrightarrow>
   (\<exists>ar\<in>set rs. \<exists>e. parse_representation env (fst ar) (snd ar) = Inl e)"
proof (induction rs)
  case Nil then show ?case by simp
next
  case (Cons ar rs)
  show ?case
  proof (cases "parse_representation env (fst ar) (snd ar)")
    case (Inl e) then show ?thesis by auto
  next
    case (Inr t)
    with Cons show ?thesis by (cases "parse_tracks env rs") auto
  qed
qed

lemma not_audio_fails:
  "get a ''contentType'' \<noteq> Some ''audio'' \<Longrightarrow>
   parse_representation env a rep = Inl (ValueError ''Only supports audio MPDs!'')"
  by (simp add: parse_representation_def)

lemma no_codecs_fails:
  "get a ''contentType'' = Some ''audio'' \<Longrightarrow> get rep ''codecs'' = None \<Longrightarrow>
   parse_representation env a rep = Inl AttributeError"
  by (simp add: parse_representation_def)

lemma representations_empty:
  "\<forall>p\<in>set (findall root ''Period''). \<forall>a\<in>set (findall p ''AdaptationSet'').
      findall a ''Representation'' = [] \<Longrightarrow> representations root = []"
  by (simp add: representations_def)

text \<open>
  C6, as the claim states it, fails: a document with no adaptation set at all parses to
  the empty list of tracks, with no error.
\<close>

theorem no_adaptation_set_counterexample:
  "parse_mpd fixture_env empty_period_xml = Inr []"
  by code_simp

text \<open>
  C6, amended. parse_mpd fails when the bytes are not UTF-8 and when the text that is
  left after the first declaration \<open>xmlns="..."\<close> is cut out is not well-formed XML. For a
  text that parses, it fails whenever some representation sits in an adaptation set
  whose contentType is not \<open>audio\<close>, and the error is the ValueError \<open>Only supports audio
  MPDs!\<close> when that representation is the first of the document. It does not fail for
  want of an audio adaptation set: a document whose adaptation sets, of whatever content
  type, hold no representation gives the empty list. These are not all its failures: a
  first representation in an audio adaptation set without a \<open>codecs\<close> attribute raises
  AttributeError. A failure is a value \<open>Inl\<close>, which carries no list of tracks.
\<close>

theorem parse_mpd_failure:
  "(utf8_decode env xml = None \<longrightarrow> parse_mpd env xml = Inl UnicodeDecodeError) \<and>
   (utf8_decode env xml = Some decoded \<and> fromstring env (sub_xmlns decoded) = None \<longrightarrow>
      parse_mpd env xml = Inl ParseError) \<and>
   (utf8_decode env xml = Some decoded \<and> fromstring env (sub_xmlns decoded) = Some root \<longrightarrow>
      (\<forall>ar\<in>set (representations root).
         get (fst ar) ''contentType'' \<noteq> Some ''audio'' \<longrightarrow> (\<exists>e. parse_mpd env xml = Inl e)) \<and>
      (\<forall>ar rest.
         representations root = ar # rest \<and> get (fst ar) ''contentType'' \<noteq> Some ''audio'' \<longrightarrow>
           parse_mpd env xml = Inl (ValueError ''Only supports audio MPDs!'')) \<and>
      (\<forall>ar rest.
         representations root = ar # rest \<and> get (fst ar) ''contentType'' = Some ''audio'' \<and>
         get (snd ar) ''codecs'' = None \<longrightarrow>
           parse_mpd env xml = Inl AttributeError) \<and>
      ((\<forall>p\<in>set (findall root ''Period''). \<forall>a\<in>set (findall p ''AdaptationSet'').
          findall a ''Representation'' = []) \<longrightarrow> parse_mpd env xml = Inr [])) \<and>
   (\<forall>e. parse_mpd env xml = Inl e \<longrightarrow> (\<forall>tracks. parse_mpd env xml \<noteq> Inr tracks))"
proof -
  have a: "utf8_decode env xml = None \<longrightarrow> parse_mpd env xml = Inl UnicodeDecodeError"
    by (simp add: parse_mpd_def)
  have b: "utf8_decode env xml = Some decoded \<and> fromstring env (sub_xmlns decoded) = None \<longrightarrow>
      parse_mpd env xml = Inl ParseError"
    by (simp add: parse_mpd_def)
  have c: "(\<forall>ar\<in>set (representations root).
         get (fst ar) ''contentType'' \<noteq> Some ''audio'' \<longrightarrow> (\<exists>e. parse_mpd env xml = Inl e)) \<and>
      (\<forall>ar rest.
         representations root = ar # rest \<and> get (fst ar) ''contentType'' \<noteq> Some ''audio'' \<longrightarrow>
           parse_mpd env xml = Inl (ValueError ''Only supports audio MPDs!'')) \<and>
      (\<forall>ar rest.
         representations root = ar # rest \<and> get (fst ar) ''contentType'' = Some ''audio'' \<and>
         get (snd ar) ''codecs'' = None \<longrightarrow>
           parse_mpd env xml = Inl AttributeError) \<and>
      ((\<forall>p\<in>set (findall root ''Period''). \<forall>a\<in>set (findall p ''AdaptationSet'').
          findall a ''Representation'' = []) \<longrightarrow> parse_mpd env xml = Inr [])"
    if h: "utf8_decode env xml = Some decoded" "fromstring env (sub_xmlns decoded) = Some root"
  proof -
    have p: "parse_mpd env xml = parse_tracks env (representations root)"
      by (simp add: parse_mpd_def h)
    have c1: "\<forall>ar\<in>set (representations root).
         get (fst ar) ''contentType'' \<noteq> Some ''audio'' \<longrightarrow> (\<exists>e. parse_mpd env xml = Inl e)"
      unfolding p parse_tracks_fails_iff using not_audio_fails by blast
    have c2: "\<forall>ar rest.
         representations root = ar # rest \<and> get (fst ar) ''contentType'' \<noteq> Some ''audio'' \<longrightarrow>
           parse_mpd env xml = Inl (ValueError ''Only supports audio MPDs!'')"
      unfolding p by (auto simp: not_audio_fails)
    have c3: "\<forall>ar rest.
         representations root = ar # rest \<and> get (fst ar) ''contentType'' = Some ''audio'' \<and>
         get (snd ar) ''codecs'' = None \<longrightarrow>
           parse_mpd env xml = Inl AttributeError"
      unfolding p by (auto simp: no_codecs_fails)
    have c4: "(\<forall>p\<in>set (findall root ''Period''). \<forall>a\<in>set (findall p ''AdaptationSet'').
          findall a ''Representation'' = []) \<longrightarrow> parse_mpd env xml = Inr []"
      unfolding p using representations_empty[of root] by auto
    from c1 c2 c3 c4 show ?thesis by (intro conjI)
  qed
  have d: "\<forall>e. parse_mpd env xml = Inl e \<longrightarrow> (\<forall>tracks. parse_mpd env xml \<noteq> Inr tracks)"
    by simp
  from a b c d show ?thesis by blast
qed

text \<open>
  Two documents: one with a representation in a video adaptation set, which is
  rejected, and one that repeats the default namespace declaration, which is not
  well-formed as it stands but is read after the first declaration is cut out, and gives
  no track.
\<close>

theorem video_manifest_rejected:
  "parse_mpd fixture_env video_xml = Inl (ValueError ''Only supports audio MPDs!'') \<and>
   sub_xmlns repeated_xmlns_xml = repeated_xmlns_stripped \<and>
   parse_mpd fixture_env repeated_xmlns_xml = Inr []"
proof -
  have h1: "utf8_decode fixture_env video_xml = Some video_xml"
    by (simp add: fixture_env_def)
  have h2: "fromstring fixture_env (sub_xmlns video_xml) = Some video_doc"
    by code_simp
  have h3: "representations video_doc =
      (Element ''AdaptationSet'' [(''contentType'', ''video'')] [Element ''Representation'' [] []],
       Element ''Representation'' [] []) # []"
    by code_simp
  have h4: "get (fst (Element ''AdaptationSet'' [(''contentType'', ''video'')] [Element ''Representation'' [] []],
            Element ''Representation'' [] [])) ''contentType'' \<noteq> Some ''audio''"
    by (simp add: get_def)
  note t = parse_mpd_failure[of fixture_env video_xml video_xml video_doc,
      THEN conjunct2, THEN conjunct2, THEN conjunct1, THEN mp, OF conjI[OF h1 h2],
      THEN conjunct2, THEN conjunct1, THEN spec, THEN spec, THEN mp, OF conjI[OF h3 h4]]
  have r0: "sub_xmlns repeated_xmlns_xml = repeated_xmlns_stripped"
    by code_simp
  have r1: "utf8_decode fixture_env repeated_xmlns_xml = Some repeated_xmlns_xml"
    by (simp add: fixture_env_def)
  have r2: "fromstring fixture_env (sub_xmlns repeated_xmlns_xml) = Some repeated_xmlns_doc"
    by code_simp
  have r3: "\<forall>p\<in>set (findall repeated_xmlns_doc ''Period''). \<forall>a\<in>set (findall p ''AdaptationSet'').
          findall a ''Representation'' = []"
    by (simp add: findall_def repeated_xmlns_doc_def)
  note u = parse_mpd_failure[of fixture_env repeated_xmlns_xml repeated_xmlns_xml repeated_xmlns_doc,
      THEN conjunct2, THEN conjunct2, THEN conjunct1, THEN mp, OF conjI[OF r1 r2],
      THEN conjunct2, THEN conjunct2, THEN conjunct2, THEN mp, OF r3]
  from t r0 u show ?thesis by (intro conjI)
qed

section \<open>Codec names\<close>

lemma lowercase_codes: "map char_of [97..<123::nat] = ''abcdefghijklmnopqrstuvwxyz''"
  by code_simp

lemma lowercase_iff:
  "97 \<le> (of_char c :: nat) \<and> (of_char c :: nat) \<le> 122 \<longleftrightarrow>
     c \<in> set ''abcdefghijklmnopqrstuvwxyz''"
proof
  assume "97 \<le> (of_char c :: nat) \<and> (of_char c :: nat) \<le> 122"
  then have "(of_char c :: nat) \<in> {97..<123}" by auto
  then have "(of_char c :: nat) \<in> set [97..<123]" by (simp only: set_upt)
  then have "char_of (of_char c :: nat) \<in> set (map char_of [97..<123::nat])"
    by (simp only: set_map image_eqI)
  then show "c \<in> set ''abcdefghijklmnopqrstuvwxyz''"
    by (simp only: lowercase_codes char_of_char)
next
  assume "c \<in> set ''abcdefghijklmnopqrstuvwxyz''"
  then have "c \<in> set (map char_of [97..<123::nat])" by (simp only: lowercase_codes)
  then obtain n :: nat where n: "97 \<le> n" "n < 123" and c: "c = char_of n" by auto
  then have "(of_char c :: nat) = n" by (simp add: of_char_of)
  with n show "97 \<le> (of_char c :: nat) \<and> (of_char c :: nat) \<le> 122" by simp
qed

lemma upper_lowercase:
  "map upper_char ''abcdefghijklmnopqrstuvwxyz'' = ''ABCDEFGHIJKLMNOPQRSTUVWXYZ''"
  by code_simp

lemma capital_lowercase:
  "map capital_of ''abcdefghijklmnopqrstuvwxyz'' = ''ABCDEFGHIJKLMNOPQRSTUVWXYZ''"
  by code_simp

lemma upper_char_capital: "upper_char c = capital_of c"
proof (cases "c \<in> set ''abcdefghijklmnopqrstuvwxyz''")
  case True
  then obtain i where i: "i < length ''abcdefghijklmnopqrstuvwxyz''"
    and c: "''abcdefghijklmnopqrstuvwxyz'' ! i = c"
    by (meson in_set_conv_nth)
  have "upper_char c = map upper_char ''abcdefghijklmnopqrstuvwxyz'' ! i"
    using i c by (simp only: nth_map)
  also have "\<dots> = map capital_of ''abcdefghijklmnopqrstuvwxyz'' ! i"
    by (simp only: upper_lowercase capital_lowercase)
  also have "\<dots> = capital_of c"
    using i c by (simp only: nth_map)
  finally show ?thesis .
next
  case False
  have m: "map fst (zip ''abcdefghijklmnopqrstuvwxyz'' ''ABCDEFGHIJKLMNOPQRSTUVWXYZ'') =
      ''abcdefghijklmnopqrstuvwxyz''"
    by (rule map_fst_zip) simp
  from False have "c \<notin> set (map fst (zip ''abcdefghijklmnopqrstuvwxyz'' ''ABCDEFGHIJKLMNOPQRSTUVWXYZ''))"
    by (simp only: m simp_thms)
  then have "c \<notin> fst ` set (zip ''abcdefghijklmnopqrstuvwxyz'' ''ABCDEFGHIJKLMNOPQRSTUVWXYZ'')"
    by (simp only: set_map simp_thms)
  then have "map_of (zip ''abcdefghijklmnopqrstuvwxyz'' ''ABCDEFGHIJKLMNOPQRSTUVWXYZ'') c = None"
    by (simp only: map_of_eq_None_iff simp_thms)
  then have "capital_of c = c" by (simp only: capital_of_def option.case)
  moreover from False lowercase_iff[of c] have "upper_char c = c"
    by (simp only: upper_char_def Let_def) simp
  ultimately show ?thesis by simp
qed

lemma upper_in_capitals: "upper c = in_capitals c"
  by (simp add: upper_def in_capitals_def upper_char_capital)

lemma contains_sublist: "contains sub s \<longleftrightarrow> sublist sub s"
  by (induction s) (auto simp: sublist_Cons_right)

lemma upper_begins_mp4a: "prefix ''MP4A'' (upper c) \<longleftrightarrow> begins_mp4a c"
  by (simp add: begins_mp4a_def upper_in_capitals)

lemma bindE_Inr_iff: "bindE m f = Inr y \<longleftrightarrow> (\<exists>x. m = Inr x \<and> f x = Inr y)"
  by (cases m) (simp_all add: bindE_def)

lemma parse_representation_codec_upper:
  "parse_representation env a rep = Inr t \<Longrightarrow>
   \<exists>c. get rep ''codecs'' = Some c \<and> codec_member env (codec t) \<and>
       codec t = (if prefix ''MP4A'' (upper c) then ''AAC'' else upper c)"
proof -
  assume p: "parse_representation env a rep = Inr t"
  then obtain c where c: "get rep ''codecs'' = Some c"
    by (auto simp: parse_representation_def split: if_splits option.splits)
  from p c have "codec_member env (codec t) \<and>
      codec t = (if prefix ''MP4A'' (upper c) then ''AAC'' else upper c)"
    unfolding parse_representation_def
    by (auto simp: Let_def bindE_Inr_iff CodecEnum_def split: if_splits option.splits)
  with c show ?thesis by blast
qed

lemma parse_representation_codec:
  "parse_representation env a rep = Inr t \<Longrightarrow>
   \<exists>c. get rep ''codecs'' = Some c \<and> codec_member env (codec t) \<and>
       codec t = (if begins_mp4a c then ''AAC'' else in_capitals c)"
  by (simp only: upper_begins_mp4a[symmetric] upper_in_capitals[symmetric])
     (rule parse_representation_codec_upper)

lemma parse_tracks_codec:
  "parse_tracks env rs = Inr ts \<Longrightarrow>
   list_all2 (\<lambda>ar t. \<exists>c. get (snd ar) ''codecs'' = Some c \<and> codec_member env (codec t) \<and>
       (is_ascii c \<longrightarrow> codec t = (if begins_mp4a c then ''AAC'' else in_capitals c))) rs ts"
proof (induction rs arbitrary: ts)
  case Nil then show ?case by simp
next
  case (Cons ar rs)
  from Cons.prems obtain t ts' where
    t: "parse_representation env (fst ar) (snd ar) = Inr t"
    and ts': "parse_tracks env rs = Inr ts'" and eq: "ts = t # ts'"
    by (auto split: sum.splits)
  from parse_representation_codec[OF t] Cons.IH[OF ts'] eq show ?case by auto
qed

text \<open>
  C7. Every track parse_mpd returns has a codec that is a member of CodecEnum and, for
  an ASCII \<open>codecs\<close> attribute, is named \<open>AAC\<close> when the attribute begins with \<open>mp4a\<close>
  (in either case of the letters) and by the attribute written in capitals otherwise.
  For a direct JSON manifest with an ASCII \<open>codecs\<close> string the codec is \<open>AAC\<close> when the
  string contains \<open>mp4a\<close> and the string written in capitals otherwise, and no audio
  track is set. For the manifest of scenario C, with codecs \<open>mp4a.40.2\<close> and the single
  URL \<open>u\<close>, the codec is \<open>AAC\<close>, the download arguments are that URL, and
  get_track_download returns the URL as it is, touching no temporary file.
\<close>

theorem codec_normalisation:
  "(utf8_decode env xml = Some decoded \<and> fromstring env (sub_xmlns decoded) = Some root \<and>
    parse_mpd env xml = Inr tracks \<longrightarrow>
      list_all2 (\<lambda>ar t. \<exists>c. get (snd ar) ''codecs'' = Some c \<and> codec_member env (codec t) \<and>
          (is_ascii c \<longrightarrow> codec t = (if begins_mp4a c then ''AAC'' else in_capitals c)))
        (representations root) tracks) \<and>
   (manifestMimeType sd \<noteq> ''application/dash+xml'' \<and> read_manifest env at sd = Inr (at', m, cd) \<longrightarrow>
      at' = at \<and>
      (\<exists>raw j c. b64decode env (manifest sd) = Some raw \<and> json_loads env raw = Some j \<and>
         m = Json j \<and> codecs j = Some c \<and> codec_member env cd \<and>
         (is_ascii c \<longrightarrow> cd = (if sublist ''mp4a'' c then ''AAC'' else in_capitals c)))) \<and>
   (manifestMimeType sd \<noteq> ''application/dash+xml'' \<and> b64decode env (manifest sd) = Some raw \<and>
    json_loads env raw = Some \<lparr>codecs = Some ''mp4a.40.2'', json_urls = Some [u]\<rparr> \<and>
    codec_member env ''AAC'' \<longrightarrow>
      read_manifest env None sd =
        Inr (None, Json \<lparr>codecs = Some ''mp4a.40.2'', json_urls = Some [u]\<rparr>, ''AAC'') \<and>
      snd (finish self sd None (Json \<lparr>codecs = Some ''mp4a.40.2'', json_urls = Some [u]\<rparr>) ''AAC'') =
        bindE (bitrate_of sd None ''AAC'') (\<lambda>b.
          Inr \<lparr>track_codec = ''AAC'', track_bitrate = b,
               download_extra_kwargs = Some (FileUrlArgs u ''AAC''), track_error = None\<rparr>)) \<and>
   (u \<noteq> [] \<longrightarrow> get_track_download denv st (Some u) audio_track = (st, Inr (URL u)))"
proof -
  have dash: "list_all2 (\<lambda>ar t. \<exists>c. get (snd ar) ''codecs'' = Some c \<and> codec_member env (codec t) \<and>
          (is_ascii c \<longrightarrow> codec t = (if begins_mp4a c then ''AAC'' else in_capitals c)))
        (representations root) tracks"
    if "utf8_decode env xml = Some decoded" "fromstring env (sub_xmlns decoded) = Some root"
      "parse_mpd env xml = Inr tracks"
  proof -
    from that have "parse_tracks env (representations root) = Inr tracks"
      by (simp add: parse_mpd_def)
    then show ?thesis by (rule parse_tracks_codec)
  qed
  have json: "at' = at \<and>
      (\<exists>raw j c. b64decode env (manifest sd) = Some raw \<and> json_loads env raw = Some j \<and>
         m = Json j \<and> codecs j = Some c \<and> codec_member env cd \<and>
         (is_ascii c \<longrightarrow> cd = (if sublist ''mp4a'' c then ''AAC'' else in_capitals c)))"
    if "manifestMimeType sd \<noteq> ''application/dash+xml''" "read_manifest env at sd = Inr (at', m, cd)"
    using that unfolding read_manifest_def contains_sublist upper_in_capitals
    by (auto simp: bindE_def CodecEnum_def split: option.splits sum.splits if_splits)
  have c: "contains ''mp4a'' ''mp4a.40.2''" by simp
  have scen: "read_manifest env None sd =
        Inr (None, Json \<lparr>codecs = Some ''mp4a.40.2'', json_urls = Some [u]\<rparr>, ''AAC'')"
    if "manifestMimeType sd \<noteq> ''application/dash+xml''" "b64decode env (manifest sd) = Some raw"
     "json_loads env raw = Some \<lparr>codecs = Some ''mp4a.40.2'', json_urls = Some [u]\<rparr>"
     "codec_member env ''AAC''"
    using that c by (simp add: read_manifest_def CodecEnum_def)
  have fin: "snd (finish self sd None (Json \<lparr>codecs = Some ''mp4a.40.2'', json_urls = Some [u]\<rparr>) ''AAC'') =
        bindE (bitrate_of sd None ''AAC'') (\<lambda>b.
          Inr \<lparr>track_codec = ''AAC'', track_bitrate = b,
               download_extra_kwargs = Some (FileUrlArgs u ''AAC''), track_error = None\<rparr>)"
    by (simp add: finish_def first_url_def Let_def)
  have url: "u \<noteq> [] \<longrightarrow> get_track_download denv st (Some u) audio_track = (st, Inr (URL u))"
    by (simp add: get_track_download_def)
  from dash json scen fin url show ?thesis by blast
qed

text \<open>
  The theorem at the manifests of scenario D (codecs \<open>flac\<close>, segmented), of the direct
  JSON manifests with codecs \<open>flac\<close> and \<open>mqa\<close>, and of scenario C end to end: the backend
  answers with the direct JSON manifest, the result names codec AAC and the one URL, and
  the download is that URL.
\<close>

theorem scenario_C_direct_url:
  "parse_mpd fixture_env scenario_D_xml =
       Inr [\<lparr>codec = ''FLAC'', sample_rate = 44100, bitrate = 1000000,
             urls = [Some ''http://x/init.mp4'', Some ''http://x/1.mp4'',
                     Some ''http://x/2.mp4'', Some ''http://x/3.mp4'']\<rparr>] \<and>
   list_all2 (\<lambda>ar t. \<exists>c. get (snd ar) ''codecs'' = Some c \<and> codec_member fixture_env (codec t) \<and>
          (is_ascii c \<longrightarrow> codec t = (if begins_mp4a c then ''AAC'' else in_capitals c)))
        (representations scenario_D_doc)
        [\<lparr>codec = ''FLAC'', sample_rate = 44100, bitrate = 1000000,
             urls = [Some ''http://x/init.mp4'', Some ''http://x/1.mp4'',
                     Some ''http://x/2.mp4'', Some ''http://x/3.mp4'']\<rparr>] \<and>
   map (\<lambda>ar. get (snd ar) ''codecs'') (representations scenario_D_doc) = [Some ''flac''] \<and>
   is_ascii ''flac'' \<and> \<not> begins_mp4a ''flac'' \<and> in_capitals ''flac'' = ''FLAC'' \<and>
   begins_mp4a ''mp4a.40.2'' \<and> begins_mp4a ''MP4A.40.5'' \<and> in_capitals ''ec-3'' = ''EC-3'' \<and>
   read_manifest fixture_env None (json_stream flac_b64 ''LOSSLESS'') =
     Inr (None, Json \<lparr>codecs = Some ''flac'', json_urls = Some [''http://x/l.flac'']\<rparr>, ''FLAC'') \<and>
   (\<exists>raw j c. b64decode fixture_env (manifest (json_stream flac_b64 ''LOSSLESS'')) = Some raw \<and>
      json_loads fixture_env raw = Some j \<and>
      Json \<lparr>codecs = Some ''flac'', json_urls = Some [''http://x/l.flac'']\<rparr> = Json j \<and>
      codecs j = Some c \<and> codec_member fixture_env ''FLAC'' \<and>
      (is_ascii c \<longrightarrow> ''FLAC'' = (if sublist ''mp4a'' c then ''AAC'' else in_capitals c))) \<and>
   read_manifest fixture_env None (json_stream aac_b64 ''LOW'') =
     Inr (None, Json \<lparr>codecs = Some ''mp4a.40.2'', json_urls = Some [''http://x/a.m4a'']\<rparr>, ''AAC'') \<and>
   get_track_info fixture_env (fixture_state default_settings) ''1'' LOW
      \<lparr>spatial_codecs = True, proprietary_codecs = False\<rparr> [] =
     ((fixture_state default_settings)\<lparr>session_default := TV, requests := [(TV, ''1'', ''LOW'')]\<rparr>,
      Inr \<lparr>track_codec = ''AAC'', track_bitrate = Some 96,
           download_extra_kwargs = Some (FileUrlArgs ''http://x/a.m4a'' ''AAC''),
           track_error = None\<rparr>) \<and>
   get_track_download (fixture_download_env True) no_files (Some ''http://x/a.m4a'') None =
     (no_files, Inr (URL ''http://x/a.m4a''))"
proof -
  have d1: "utf8_decode fixture_env scenario_D_xml = Some scenario_D_xml"
    by (simp add: fixture_env_def)
  have d2: "fromstring fixture_env (sub_xmlns scenario_D_xml) = Some scenario_D_doc"
    by code_simp
  have d3: "parse_mpd fixture_env scenario_D_xml =
       Inr [\<lparr>codec = ''FLAC'', sample_rate = 44100, bitrate = 1000000,
             urls = [Some ''http://x/init.mp4'', Some ''http://x/1.mp4'',
                     Some ''http://x/2.mp4'', Some ''http://x/3.mp4'']\<rparr>]"
    by code_simp
  note t1 = codec_normalisation[where env = fixture_env and xml = scenario_D_xml
      and decoded = scenario_D_xml and root = scenario_D_doc,
      THEN conjunct1, THEN mp, OF conjI[OF d1 conjI[OF d2 d3]]]
  have reps: "map (\<lambda>ar. get (snd ar) ''codecs'') (representations scenario_D_doc) = [Some ''flac'']"
    by code_simp
  have ev: "is_ascii ''flac''" "\<not> begins_mp4a ''flac''" "in_capitals ''flac'' = ''FLAC''"
    "begins_mp4a ''mp4a.40.2''" "begins_mp4a ''MP4A.40.5''" "in_capitals ''ec-3'' = ''EC-3''"
    by code_simp+
  have f1: "read_manifest fixture_env None (json_stream flac_b64 ''LOSSLESS'') =
     Inr (None, Json \<lparr>codecs = Some ''flac'', json_urls = Some [''http://x/l.flac'']\<rparr>, ''FLAC'')"
    by code_simp
  have mt: "manifestMimeType (json_stream flac_b64 ''LOSSLESS'') \<noteq> ''application/dash+xml''"
    by (simp add: json_stream_def)
  note t2 = codec_normalisation[where env = fixture_env and sd = "json_stream flac_b64 ''LOSSLESS''"
      and at = None, THEN conjunct2, THEN conjunct1, THEN mp, OF conjI[OF mt f1], THEN conjunct2]
  have s1: "manifestMimeType (json_stream aac_b64 ''LOW'') \<noteq> ''application/dash+xml''"
    by (simp add: json_stream_def)
  have s2: "b64decode fixture_env (manifest (json_stream aac_b64 ''LOW'')) = Some aac_json"
    by code_simp
  have s3: "json_loads fixture_env aac_json =
      Some \<lparr>codecs = Some ''mp4a.40.2'', json_urls = Some [''http://x/a.m4a'']\<rparr>"
    by code_simp
  have s4: "codec_member fixture_env ''AAC''"
    by (simp add: fixture_env_def)
  note t3 = codec_normalisation[where env = fixture_env and sd = "json_stream aac_b64 ''LOW''"
      and raw = aac_json and u = "''http://x/a.m4a''",
      THEN conjunct2, THEN conjunct2, THEN conjunct1, THEN mp,
      OF conjI[OF s1 conjI[OF s2 conjI[OF s3 s4]]], THEN conjunct1]
  have v: "get_track_info fixture_env (fixture_state default_settings) ''1'' LOW
      \<lparr>spatial_codecs = True, proprietary_codecs = False\<rparr> [] =
     ((fixture_state default_settings)\<lparr>session_default := TV, requests := [(TV, ''1'', ''LOW'')]\<rparr>,
      Inr \<lparr>track_codec = ''AAC'', track_bitrate = Some 96,
           download_extra_kwargs = Some (FileUrlArgs ''http://x/a.m4a'' ''AAC''),
           track_error = None\<rparr>)"
    by code_simp
  have n: "''http://x/a.m4a'' \<noteq> []" by simp
  note t4 = codec_normalisation[where u = "''http://x/a.m4a''" and denv = "fixture_download_env True"
      and st = no_files and audio_track = None,
      THEN conjunct2, THEN conjunct2, THEN conjunct2, THEN mp, OF n]
  from d3 t1 reps ev f1 t2 t3 v t4 show ?thesis by (intro conjI)
qed

section \<open>Temporary files of get_track_download\<close>

lemma silentremove_all_apply:
  "silentremove_all ps fs p = (if p \<in> set ps then None else fs p)"
  by (induction ps arbitrary: fs) auto

lemma download_segments_files:
  "download_segments denv st us acc = (st1, Inr locs) \<Longrightarrow>
   \<forall>p\<in>set acc. temp_files st p \<noteq> None \<Longrightarrow>
   (\<forall>p\<in>set locs. temp_files st1 p \<noteq> None) \<and> download_printed st1 = download_printed st \<and>
   length locs = length acc + length us"
proof (induction us arbitrary: st acc)
  case Nil then show ?case by simp
next
  case (Cons u us)
  from Cons.prems(1) obtain pc where
    pc: "download_to_temp denv u = Inr pc"
    and rest: "download_segments denv (st\<lparr>temp_files := (temp_files st)(fst pc \<mapsto> snd pc)\<rparr>) us
                 (acc @ [fst pc]) = (st1, Inr locs)"
    by (auto split: sum.splits)
  have inv: "\<forall>p\<in>set (acc @ [fst pc]).
      temp_files (st\<lparr>temp_files := (temp_files st)(fst pc \<mapsto> snd pc)\<rparr>) p \<noteq> None"
    using Cons.prems(2) by simp
  from Cons.IH[OF rest inv] show ?case by simp
qed

text \<open>
  C8, as the claim states it, fails: when ffmpeg does not run, the temporary file of
  every segment is still there after get_track_download returns the merged file.
\<close>

theorem segment_files_left_counterexample:
  "snd (get_track_download (fixture_download_env False) no_files None (Some fixture_track)) =
     Inr (TEMP_FILE_PATH ''/tmp/merged.mp4'') \<and>
   temp_files (fst (get_track_download (fixture_download_env False) no_files None (Some fixture_track)))
     ''/tmp/init'' = Some ''<init>'' \<and>
   temp_files (fst (get_track_download (fixture_download_env False) no_files None (Some fixture_track)))
     ''/tmp/seg1'' = Some ''<seg1>''"
  by code_simp

text \<open>
  C8, amended. When every segment was downloaded and the ffmpeg step raises,
  get_track_download does not fail: it prints the warning and returns the merged file,
  which holds the segments' bytes in order and is not deleted; the temporary files of
  the segments are not deleted either. When ffmpeg succeeds the output file is returned
  and the merged file and every segment file are deleted, with nothing printed.
\<close>

theorem remux_failure_degrades:
  assumes "download_segments denv st (urls t) [] = (st1, Inr temp_locations)"
  shows "(ffmpeg_run denv (concat (map (read_file st1) temp_locations))
            (snd (temp_filenames denv) @ ''.'' @ container_name denv (codec t)) = None \<longrightarrow>
           snd (get_track_download denv st None (Some t)) =
             Inr (TEMP_FILE_PATH (fst (temp_filenames denv) @ ''.mp4'')) \<and>
           temp_files (fst (get_track_download denv st None (Some t)))
             (fst (temp_filenames denv) @ ''.mp4'') = Some (concat (map (read_file st1) temp_locations)) \<and>
           download_printed (fst (get_track_download denv st None (Some t))) =
             download_printed st @ [ffmpeg_warning] \<and>
           length temp_locations = length (urls t) \<and>
           (\<forall>p\<in>set temp_locations.
              temp_files (fst (get_track_download denv st None (Some t))) p \<noteq> None)) \<and>
         (\<forall>out. ffmpeg_run denv (concat (map (read_file st1) temp_locations))
            (snd (temp_filenames denv) @ ''.'' @ container_name denv (codec t)) = Some out \<longrightarrow>
           snd (get_track_download denv st None (Some t)) =
             Inr (TEMP_FILE_PATH (snd (temp_filenames denv) @ ''.'' @ container_name denv (codec t))) \<and>
           temp_files (fst (get_track_download denv st None (Some t)))
             (fst (temp_filenames denv) @ ''.mp4'') = None \<and>
           download_printed (fst (get_track_download denv st None (Some t))) = download_printed st \<and>
           (\<forall>p\<in>set temp_locations.
              temp_files (fst (get_track_download denv st None (Some t))) p = None))"
proof -
  define merged_loc where "merged_loc = fst (temp_filenames denv) @ ''.mp4''"
  define out_loc where "out_loc = snd (temp_filenames denv) @ ''.'' @ container_name denv (codec t)"
  define merged where "merged = concat (map (read_file st1) temp_locations)"
  define st2 where "st2 = st1\<lparr>temp_files := (temp_files st1)(merged_loc \<mapsto> merged)\<rparr>"
  from download_segments_files[OF assms] have
    ex: "\<forall>p\<in>set temp_locations. temp_files st1 p \<noteq> None"
    and pr: "download_printed st1 = download_printed st"
    and len: "length temp_locations = length (urls t)"
    by simp_all
  have g: "get_track_download denv st None (Some t) =
     (case ffmpeg_run denv merged out_loc of
        None \<Rightarrow> (st2\<lparr>download_printed := download_printed st2 @ [ffmpeg_warning]\<rparr>,
                 Inr (TEMP_FILE_PATH merged_loc))
      | Some out \<Rightarrow>
          (st2\<lparr>temp_files := silentremove_all temp_locations
                   (((temp_files st2)(out_loc \<mapsto> out))(merged_loc := None))\<rparr>,
           Inr (TEMP_FILE_PATH out_loc)))"
    unfolding get_track_download_def download_dash_def
    by (simp add: assms Let_def merged_loc_def out_loc_def merged_def st2_def split: option.split)
  have fail: "snd (get_track_download denv st None (Some t)) = Inr (TEMP_FILE_PATH merged_loc) \<and>
           temp_files (fst (get_track_download denv st None (Some t))) merged_loc = Some merged \<and>
           download_printed (fst (get_track_download denv st None (Some t))) =
             download_printed st @ [ffmpeg_warning] \<and>
           length temp_locations = length (urls t) \<and>
           (\<forall>p\<in>set temp_locations.
              temp_files (fst (get_track_download denv st None (Some t))) p \<noteq> None)"
    if "ffmpeg_run denv merged out_loc = None"
    using that ex pr len by (simp add: g st2_def)
  have ok: "snd (get_track_download denv st None (Some t)) = Inr (TEMP_FILE_PATH out_loc) \<and>
           temp_files (fst (get_track_download denv st None (Some t))) merged_loc = None \<and>
           download_printed (fst (get_track_download denv st None (Some t))) = download_printed st \<and>
           (\<forall>p\<in>set temp_locations.
              temp_files (fst (get_track_download denv st None (Some t))) p = None)"
    if "ffmpeg_run denv merged out_loc = Some out" for out
    using that pr by (simp add: g st2_def silentremove_all_apply)
  from fail ok show ?thesis
    unfolding merged_loc_def out_loc_def merged_def by blast
qed

theorem remux_failure_degrades_witness:
  "snd (get_track_download (fixture_download_env False) no_files None (Some fixture_track)) =
     Inr (TEMP_FILE_PATH ''/tmp/merged.mp4'') \<and>
   temp_files (fst (get_track_download (fixture_download_env False) no_files None (Some fixture_track)))
     ''/tmp/merged.mp4'' = Some ''<init><seg1>'' \<and>
   download_printed (fst (get_track_download (fixture_download_env False) no_files None (Some fixture_track))) =
     download_printed no_files @ [ffmpeg_warning]"
proof -
  have d: "download_segments (fixture_download_env False) no_files (urls fixture_track) [] =
     (\<lparr>temp_files = (\<lambda>p. None)(''/tmp/init'' \<mapsto> ''<init>'', ''/tmp/seg1'' \<mapsto> ''<seg1>''),
       download_printed = []\<rparr>, Inr [''/tmp/init'', ''/tmp/seg1''])"
    by (simp add: fixture_download_env_def no_files_def fixture_track_def)
  have f: "ffmpeg_run (fixture_download_env False) x y = None" for x y
    by (simp add: fixture_download_env_def)
  have v: "snd (get_track_download (fixture_download_env False) no_files None (Some fixture_track)) =
     Inr (TEMP_FILE_PATH ''/tmp/merged.mp4'')"
    by code_simp
  have w: "temp_files (fst (get_track_download (fixture_download_env False) no_files None (Some fixture_track)))
     ''/tmp/merged.mp4'' = Some ''<init><seg1>''"
    by code_simp
  note t = remux_failure_degrades[OF d, THEN conjunct1, THEN mp, OF f,
      THEN conjunct2, THEN conjunct2, THEN conjunct1]
  from v w t show ?thesis by (intro conjI)
qed

end
